theory Spec2Isabelle
  imports Main "HOL-Library.Word"
begin

section \<open>Bootstrapping parameters (ckks/bootstrap\_params.go)\<close>

text \<open>
  A \<^verbatim>\<open>uint64\<close> is a 64-bit word. A \<^verbatim>\<open>float64\<close> is carried as its IEEE-754 bit
  pattern: \<^verbatim>\<open>Copy\<close> only moves values, it never computes with them, and the zero
  value of the type has the all-zero pattern.
\<close>

type_synonym uint64 = "64 word"
type_synonym float64 = "64 word"

text \<open>\<^verbatim>\<open>type SinType uint64\<close> with its three constants.\<close>

type_synonym SinType = uint64

definition Sin :: SinType where "Sin = 0"
definition Cos1 :: SinType where "Cos1 = 1"
definition Cos2 :: SinType where "Cos2 = 2"

text \<open>
  The three structs of moduli. Go lets them share the field names \<^verbatim>\<open>Qi\<close> and
  \<^verbatim>\<open>ScalingFactor\<close>; here each field carries the struct's short name.
\<close>

record CoeffsToSlotsModuli =
  CtS_Qi :: "uint64 list"
  CtS_ScalingFactor :: "float64 list list"

record SineEvalModuli =
  Sine_Qi :: "uint64 list"
  Sine_ScalingFactor :: float64

record SlotsToCoeffsModuli =
  StC_Qi :: "uint64 list"
  StC_ScalingFactor :: "float64 list list"

text \<open>The struct \<^verbatim>\<open>BootstrappingParameters\<close> (lines 43 to 61), field by field.\<close>

record BootstrappingParameters =
  ResidualModuli :: "uint64 list"
  KeySwitchModuli :: "uint64 list"
  SlotsToCoeffs :: SlotsToCoeffsModuli
  SineEval :: SineEvalModuli
  CoeffsToSlots :: CoeffsToSlotsModuli
  LogN :: uint64
  LogSlots :: uint64
  Scale :: float64
  Sigma :: float64
  H :: uint64
  SinType :: SinType
  MessageRatio :: float64
  SinRange :: uint64
  SinDeg :: uint64
  SinRescal :: uint64
  ArcSineDeg :: uint64
  MaxN1N2Ratio :: float64

text \<open>
  Go's \<^verbatim>\<open>make([]T, n)\<close> is \<open>n\<close> zero values, and \<^verbatim>\<open>copy(dst, src)\<close> overwrites the
  first \<open>min (len dst) (len src)\<close> elements of \<open>dst\<close>, leaving the others as they were.
\<close>

definition go_make :: "nat \<Rightarrow> 64 word list" where
  "go_make n = replicate n 0"

definition go_copy :: "'a list \<Rightarrow> 'a list \<Rightarrow> 'a list" where
  "go_copy dst src = take (length dst) src @ drop (length src) dst"

text \<open>
  \<^verbatim>\<open>CtSDepth\<close> and \<^verbatim>\<open>StCDepth\<close> (lines 165 to 194): with \<^verbatim>\<open>actual\<close> the number of
  rows of the scaling factors, otherwise one count per entry of every row.
\<close>

definition CtSDepth :: "BootstrappingParameters \<Rightarrow> bool \<Rightarrow> uint64" where
  "CtSDepth b actual =
     (if actual then of_nat (length (CtS_ScalingFactor (CoeffsToSlots b)))
      else foldl (\<lambda>depth row. foldl (\<lambda>d _. d + 1) depth row) 0
             (CtS_ScalingFactor (CoeffsToSlots b)))"

definition StCDepth :: "BootstrappingParameters \<Rightarrow> bool \<Rightarrow> uint64" where
  "StCDepth b actual =
     (if actual then of_nat (length (StC_ScalingFactor (SlotsToCoeffs b)))
      else foldl (\<lambda>depth row. foldl (\<lambda>d _. d + 1) depth row) 0
             (StC_ScalingFactor (SlotsToCoeffs b)))"

text \<open>
  The loop of lines 99 to 102 (and 113 to 116): row \<open>i\<close> of the destination becomes
  a fresh slice of the length of row \<open>i\<close> of the source, filled by \<^verbatim>\<open>copy\<close>. The
  destination has \<open>n\<close> rows; a row index the source does not have is an index out of
  range in Go, which ends the call (\<open>None\<close>).
\<close>

fun copy_rows :: "nat \<Rightarrow> nat \<Rightarrow> float64 list list \<Rightarrow> float64 list list option" where
  "copy_rows i 0 src = Some []"
| "copy_rows i (Suc n) src =
     (if i < length src
      then (case copy_rows (Suc i) n src of
              None \<Rightarrow> None
            | Some rest \<Rightarrow> Some (go_copy (go_make (length (src ! i))) (src ! i) # rest))
      else None)"

text \<open>
  \<^verbatim>\<open>Copy\<close> (lines 80 to 119). The composite literal sets eight fields; every other
  field of \<^verbatim>\<open>paramsCopy\<close> starts as the zero value of its type, and the statements
  that follow assign the moduli lists one by one.
\<close>

definition Copy :: "BootstrappingParameters \<Rightarrow> BootstrappingParameters option" where
  "Copy b =
     (let nCtS = unat (CtSDepth b True);
          nStC = unat (StCDepth b True)
      in case copy_rows 0 nCtS (CtS_ScalingFactor (CoeffsToSlots b)) of
           None \<Rightarrow> None
         | Some ctsSF \<Rightarrow>
        (case copy_rows 0 nStC (StC_ScalingFactor (SlotsToCoeffs b)) of
           None \<Rightarrow> None
         | Some stcSF \<Rightarrow>
             Some \<lparr> ResidualModuli =
                      go_copy (go_make (length (ResidualModuli b))) (ResidualModuli b),
                    KeySwitchModuli = [],
                    SlotsToCoeffs =
                      \<lparr> StC_Qi = go_copy (go_make nStC) (StC_Qi (SlotsToCoeffs b)),
                        StC_ScalingFactor = stcSF \<rparr>,
                    SineEval =
                      \<lparr> Sine_Qi = go_copy (go_make nCtS) (Sine_Qi (SineEval b)),
                        Sine_ScalingFactor = Sine_ScalingFactor (SineEval b) \<rparr>,
                    CoeffsToSlots =
                      \<lparr> CtS_Qi = go_copy (go_make nCtS) (CtS_Qi (CoeffsToSlots b)),
                        CtS_ScalingFactor = ctsSF \<rparr>,
                    LogN = 0,
                    LogSlots = 0,
                    Scale = 0,
                    Sigma = 0,
                    H = H b,
                    SinType = SinType b,
                    MessageRatio = MessageRatio b,
                    SinRange = SinRange b,
                    SinDeg = SinDeg b,
                    SinRescal = SinRescal b,
                    ArcSineDeg = ArcSineDeg b,
                    MaxN1N2Ratio = MaxN1N2Ratio b \<rparr>))"

text \<open>
  The first entry of \<^verbatim>\<open>DefaultBootstrapParams\<close> (lines 201 to 270). The constant
  \<^verbatim>\<open>DefaultSigma\<close> is declared in another file and is a parameter here; the other
  floating-point literals are written as their bit patterns
  (\<open>1 << 45\<close>, \<open>268435456.0007324\<close>, \<open>0xffa0001\<close>, \<open>1 << 55\<close>, the four
  53-bit moduli of the CoeffsToSlots step, \<open>1024.0\<close> and \<open>16.0\<close>).
\<close>

definition DefaultBootstrapParams0 :: "float64 \<Rightarrow> BootstrappingParameters" where
  "DefaultBootstrapParams0 DefaultSigma =
     \<lparr> ResidualModuli =
         [0x80000000080001, 0x2000000a0001, 0x2000000e0001, 0x1fffffc20001,
          0x200000440001, 0x200000500001, 0x200000620001, 0x1fffff980001,
          0x2000006a0001, 0x1fffff7e0001, 0x200000860001],
       KeySwitchModuli =
         [0xfffffffff00001, 0xffffffffd80001, 0x1000000002a0001, 0xffffffffd20001,
          0x100000000480001],
       SlotsToCoeffs =
         \<lparr> StC_Qi = [0x100000000060001, 0xffa0001],
           StC_ScalingFactor =
             [[0x41b0000000003000, 0x41b0000000003000], [0x41aff40002000000]] \<rparr>,
       SineEval =
         \<lparr> Sine_Qi =
             [0x80000000440001, 0x7fffffffba0001, 0x80000000500001, 0x7fffffffaa0001,
              0x800000005e0001, 0x7fffffff7e0001, 0x7fffffff380001, 0x80000000ca0001],
           Sine_ScalingFactor = 0x4360000000000000 \<rparr>,
       CoeffsToSlots =
         \<lparr> CtS_Qi =
             [0x200000000e0001, 0x20000000140001, 0x20000000280001, 0x1fffffffd80001],
           CtS_ScalingFactor =
             [[0x4340000000070000], [0x43400000000a0000], [0x4340000000140000],
              [0x433fffffffd80001]] \<rparr>,
       LogN = 16,
       LogSlots = 15,
       Scale = 0x42c0000000000000,
       Sigma = DefaultSigma,
       H = 192,
       SinType = Cos1,
       MessageRatio = 0x4090000000000000,
       SinRange = 25,
       SinDeg = 63,
       SinRescal = 2,
       ArcSineDeg = 0,
       MaxN1N2Ratio = 0x4030000000000000 \<rparr>"

section \<open>The encryptor (rlwe package, encryptor source)\<close>

subsection \<open>Ring elements as symbolic values\<close>

text \<open>
  The ring arithmetic (NTT, Montgomery form, basis extension, the samplers) lives in
  other packages. A ring element is therefore carried as the term of provider calls
  that produced it, each constructor named after the call and holding the level
  arguments it was called with. A sampler read holds the position of the read in the
  encryptor's pseudo-random stream, so two reads are the same value only if they are
  the same read. \<open>NewPoly\<close> is a freshly allocated (all-zero) polynomial, \<open>NilPoly\<close>
  a nil pointer, and \<open>Given t\<close> stands for residues supplied from outside (a key,
  a plaintext, a common reference polynomial), told apart by the tag \<open>t\<close>.

  A provider call is recorded, not run. What the provider does when a level lies
  past the modulus chain or past the rows of an operand, or when an operand is nil,
  is decided in those other packages and has no counterpart here: the panics below
  are the ones the statements of the encryptor itself raise. A result \<open>Inr\<close> of a
  routine of this section therefore says that the encryptor's own statements ran
  through, and the properties of the results are stated for calls that return.
\<close>

datatype sym =
    NewPoly
  | NilPoly
  | Given nat
  | TernarySamplerReadLvl nat int
  | GaussianSamplerReadLvl nat int
  | GaussianSamplerReadAndAddLvl nat int sym
  | UniformSamplerQReadLvl nat int
  | UniformSamplerPReadLvl nat int
  | ExtendBasisSmallNormAndCenter sym int
  | NTTLvl int sym
  | InvNTTLvl int sym
  | MFormLvl int sym
  | NegLvl int sym
  | AddLvl int sym sym
  | MulCoeffsMontgomeryLvl int sym sym
  | MulCoeffsMontgomeryAndSubLvl int sym sym sym
  | ModDownQPtoQ int int sym sym

text \<open>
  A \<^verbatim>\<open>ring.Poly\<close>: the residues (\<open>Coeffs\<close>, symbolic), the ring degree its
  \<^verbatim>\<open>Degree()\<close> reports, the slice header of \<^verbatim>\<open>Coeffs\<close> (its length, and how much
  capacity lies beyond the length), and the \<^verbatim>\<open>IsNTT\<close> flag. The level of a polynomial
  is the number of its rows minus one, a Go \<^verbatim>\<open>int\<close> (\<open>-1\<close> for no row).
\<close>

record Poly =
  Coeffs :: sym
  Degree :: int
  Coeffs_len :: nat
  Coeffs_spare :: nat
  IsNTT :: bool

definition Poly_Level :: "Poly \<Rightarrow> int" where
  "Poly_Level p = int (Coeffs_len p) - 1"

definition put :: "sym \<Rightarrow> Poly \<Rightarrow> Poly" where
  "put v p = p\<lparr>Coeffs := v\<rparr>"

text \<open>
  Everything in the source that ends a call by a panic is a value of \<open>panic\<close>; the
  constructors of the explicit \<^verbatim>\<open>panic(...)\<close> statements follow their messages.
\<close>

datatype panic =
    NilPointerDereference
  | SliceBoundsOutOfRange
  | IndexOutOfRange
  | InputCiphertextTypeUnsupported
  | CannotEncryptWithCRPUsingAPublicKey
  | SetKeyPkRingDegreeMismatch
  | SetKeySkRingDegreeMismatch
  | SetKeyKeyTypeUnsupported

text \<open>
  The slice expression \<^verbatim>\<open>p.Coeffs[:n]\<close>: Go allows it up to the capacity and panics
  beyond.
\<close>

definition reslice :: "Poly \<Rightarrow> int \<Rightarrow> panic + Poly" where
  "reslice p n =
     (if 0 \<le> n \<and> nat n \<le> Coeffs_len p + Coeffs_spare p
      then Inr (p\<lparr>Coeffs_len := nat n,
                   Coeffs_spare := Coeffs_len p + Coeffs_spare p - nat n\<rparr>)
      else Inl SliceBoundsOutOfRange)"

text \<open>
  \<^verbatim>\<open>ringqp.Poly\<close> is a pair of pointers, the part over \<open>Q\<close> and the part over the
  auxiliary modulus \<open>P\<close>, which is nil when there is none. \<open>PCoeffs\<close> reads the
  residues of the \<open>P\<close> part and \<open>putQ\<close>, \<open>putP\<close> store into the two parts; a store
  into a missing \<open>P\<close> part stores nothing.
\<close>

record ringqp_Poly =
  Q :: Poly
  P :: "Poly option"

definition PCoeffs :: "ringqp_Poly \<Rightarrow> sym" where
  "PCoeffs x = (case P x of None \<Rightarrow> NilPoly | Some p \<Rightarrow> Coeffs p)"

definition putQ :: "sym \<Rightarrow> ringqp_Poly \<Rightarrow> ringqp_Poly" where
  "putQ v x = x\<lparr>Q := put v (Q x)\<rparr>"

definition putP :: "sym \<Rightarrow> ringqp_Poly \<Rightarrow> ringqp_Poly" where
  "putP v x = x\<lparr>P := map_option (put v) (P x)\<rparr>"

subsection \<open>Plaintexts, ciphertexts and keys\<close>

text \<open>
  The declarations of these types are in files of the package that are not part of
  the sources at hand; the fields are the ones the encryptor and the tests use
  (\<^verbatim>\<open>pt.Value\<close>, \<^verbatim>\<open>ct.Value[0]\<close>, \<^verbatim>\<open>ct.Value[1]\<close>, \<^verbatim>\<open>pk.Value[0]\<close>, \<^verbatim>\<open>pk.Value[1]\<close>,
  \<^verbatim>\<open>sk.Value\<close>). A ciphertext has exactly its two components, mask \<^verbatim>\<open>Value[1]\<close> and
  body \<^verbatim>\<open>Value[0]\<close>. The polynomials of a ciphertext, of a plaintext, of the keys and
  of the encryptor's buffers are taken to be distinct objects, none of them nil (the
  \<open>P\<close> part of a \<^verbatim>\<open>ringqp.Poly\<close> apart): no two of the pointers alias, so a store
  into one leaves the others as they were.
\<close>

record Plaintext =
  pt_Value :: Poly

record Ciphertext =
  ct_Value0 :: Poly
  ct_Value1 :: Poly

record PublicKey =
  pk_Value0 :: ringqp_Poly
  pk_Value1 :: ringqp_Poly

record SecretKey =
  sk_Value :: ringqp_Poly

text \<open>
  Modelled from the spec: the method \<^verbatim>\<open>Level\<close> of \<^verbatim>\<open>Plaintext\<close> and of \<^verbatim>\<open>Ciphertext\<close>
  is declared outside the sources at hand. A plaintext is one ring element at a level,
  and the tests read rows \<^verbatim>\<open>0 .. pt.Level()\<close> of \<^verbatim>\<open>pt.Value.Coeffs\<close>, so the level is
  the level of \<^verbatim>\<open>Value\<close>; a ciphertext's level is that of its component \<^verbatim>\<open>Value[0]\<close>.
  The encryptor passes plaintexts as \<^verbatim>\<open>*Plaintext\<close>, which may be nil (\<open>None\<close>);
  reading the level of a nil plaintext dereferences the nil pointer, which panics.
\<close>

definition Plaintext_Level :: "Plaintext option \<Rightarrow> panic + int" where
  "Plaintext_Level pt =
     (case pt of None \<Rightarrow> Inl NilPointerDereference
               | Some p \<Rightarrow> Inr (Poly_Level (pt_Value p)))"

definition Ciphertext_Level :: "Ciphertext \<Rightarrow> int" where
  "Ciphertext_Level ct = Poly_Level (ct_Value0 ct)"

text \<open>
  An RGSW ciphertext is two gadget ciphertexts, each a matrix \<^verbatim>\<open>Value[i][j]\<close> of pairs
  of \<^verbatim>\<open>ringqp.Poly\<close>. Its methods \<^verbatim>\<open>LevelQ\<close> and \<^verbatim>\<open>LevelP\<close> belong to the rgsw package;
  what they report is carried along as two fields.
\<close>

type_synonym gadget_Ciphertext = "(ringqp_Poly \<times> ringqp_Poly) list list"

record rgsw_Ciphertext =
  rgsw_Value0 :: gadget_Ciphertext
  rgsw_Value1 :: gadget_Ciphertext
  rgsw_LevelQ :: int
  rgsw_LevelP :: int

text \<open>
  \<^verbatim>\<open>Encrypt\<close> takes its target as \<^verbatim>\<open>interface{}\<close> and \<^verbatim>\<open>setKey\<close> its key likewise; the
  type switches tell the dynamic types apart. \<open>OtherCiphertext\<close> and \<open>OtherKey\<close>
  stand for every dynamic type the switch has no case for (a nil interface included).
\<close>

datatype ct_interface =
    RLWE Ciphertext
  | RGSW rgsw_Ciphertext
  | OtherCiphertext

datatype key_interface =
    PK PublicKey
  | SK SecretKey
  | OtherKey

subsection \<open>Parameters and the encryptor's state\<close>

text \<open>
  Of \<^verbatim>\<open>Parameters\<close> (declared elsewhere) the encryptor uses the ring degree \<^verbatim>\<open>N()\<close>,
  the count of auxiliary moduli \<^verbatim>\<open>PCount()\<close>, the gadget dimensions
  \<^verbatim>\<open>DecompRNS(levelQ, levelP)\<close> and \<^verbatim>\<open>DecompBIT(levelQ, levelP)\<close>, and
  \<^verbatim>\<open>LogBase2()\<close>; they are fields here.
\<close>

record Parameters =
  N :: int
  PCount :: int
  DecompRNS :: "int \<Rightarrow> int \<Rightarrow> int"
  DecompBIT :: "int \<Rightarrow> int \<Rightarrow> int"
  LogBase2 :: int

text \<open>
  The struct \<^verbatim>\<open>encryptor\<close> embeds its base (the parameters), its samplers and its
  buffers. The three samplers are built on one pseudo-random generator; \<open>prng\<close> counts
  the reads taken from it so far. The buffers hold residues only. The source names them
  \<^verbatim>\<open>buffQ\<close>, \<^verbatim>\<open>buffP\<close> in one variant of the conflicting regions and \<^verbatim>\<open>poolQ\<close>,
  \<^verbatim>\<open>poolP\<close> in the other; they are the same buffers. \<open>basisextender\<close> tells whether
  the pointer of that name is non-nil.
\<close>

record encryptor =
  params :: Parameters
  prng :: nat
  buffQ0 :: sym
  buffQ1 :: sym
  buffP0 :: sym
  buffP1 :: sym
  buffP2 :: sym
  poolQP :: ringqp_Poly
  basisextender :: bool

record pkEncryptor = encryptor +
  pk :: PublicKey

record skEncryptor = encryptor +
  sk :: SecretKey

datatype Encryptor =
    PkEncryptor pkEncryptor
  | SkEncryptor skEncryptor

text \<open>
  \<^verbatim>\<open>newEncryptor\<close> (lines 43 to 56) with \<^verbatim>\<open>newEncryptorSamplers\<close> and
  \<^verbatim>\<open>newEncryptorBuffers\<close>: a basis extender and the \<open>P\<close> buffers exist only when the
  parameters have auxiliary moduli. \<open>newQP\<close> is the parameters' \<^verbatim>\<open>RingQP().NewPoly()\<close>,
  a parameter since the ring is not part of the sources.
\<close>

definition newEncryptor :: "Parameters \<Rightarrow> ringqp_Poly \<Rightarrow> encryptor" where
  "newEncryptor ps newQP =
     \<lparr> params = ps,
       prng = 0,
       buffQ0 = NewPoly,
       buffQ1 = NewPoly,
       buffP0 = (if PCount ps \<noteq> 0 then NewPoly else NilPoly),
       buffP1 = (if PCount ps \<noteq> 0 then NewPoly else NilPoly),
       buffP2 = (if PCount ps \<noteq> 0 then NewPoly else NilPoly),
       poolQP = newQP,
       basisextender = (PCount ps \<noteq> 0) \<rparr>"

text \<open>
  \<^verbatim>\<open>setKey\<close> (lines 539 to 554): the only place where the ring degree of a key is
  compared with the parameters'.
\<close>

definition setKey :: "encryptor \<Rightarrow> key_interface \<Rightarrow> panic + Encryptor" where
  "setKey enc key =
     (case key of
        PK k \<Rightarrow>
          if Degree (Q (pk_Value0 k)) \<noteq> N (params enc)
             \<or> Degree (Q (pk_Value1 k)) \<noteq> N (params enc)
          then Inl SetKeyPkRingDegreeMismatch
          else Inr (PkEncryptor (encryptor.extend enc (pkEncryptor.fields k)))
      | SK k \<Rightarrow>
          if Degree (Q (sk_Value k)) \<noteq> N (params enc)
          then Inl SetKeySkRingDegreeMismatch
          else Inr (SkEncryptor (encryptor.extend enc (skEncryptor.fields k)))
      | OtherKey \<Rightarrow> Inl SetKeyKeyTypeUnsupported)"

definition NewEncryptor :: "Parameters \<Rightarrow> ringqp_Poly \<Rightarrow> key_interface \<Rightarrow> panic + Encryptor" where
  "NewEncryptor ps newQP key = setKey (newEncryptor ps newQP) key"

subsection \<open>Public-key encryption\<close>

text \<open>
  The last three statements of each of the three encryption routines (lines 271 to 273,
  356 to 358 and 417 to 419): the mask takes the flag of the body, and both
  \<^verbatim>\<open>Coeffs\<close> are cut to \<^verbatim>\<open>levelQ+1\<close> rows.
\<close>

definition set_flag_and_level :: "Ciphertext \<Rightarrow> int \<Rightarrow> panic + Ciphertext" where
  "set_flag_and_level ciphertext levelQ =
     (let value1 = (ct_Value1 ciphertext)\<lparr>IsNTT := IsNTT (ct_Value0 ciphertext)\<rparr>
      in case reslice (ct_Value0 ciphertext) (levelQ + 1) of
           Inl e \<Rightarrow> Inl e
         | Inr v0 \<Rightarrow>
             (case reslice value1 (levelQ + 1) of
                Inl e \<Rightarrow> Inl e
              | Inr v1 \<Rightarrow> Inr \<lparr>ct_Value0 = v0, ct_Value1 = v1\<rparr>))"

text \<open>
  \<^verbatim>\<open>pkEncryptor.encryptRLWE\<close> (lines 180 to 274), the path with an auxiliary modulus.
  \<open>u\<close> and \<open>e\<close> live in the buffers \<^verbatim>\<open>buffQ[0]\<close> and \<^verbatim>\<open>buffP[2]\<close>; the \<open>Q\<close> parts
  of \<^verbatim>\<open>ct0QP\<close> and \<^verbatim>\<open>ct1QP\<close> are the ciphertext's own components and their \<open>P\<close> parts
  the buffers \<^verbatim>\<open>buffP[0]\<close> and \<^verbatim>\<open>buffP[1]\<close>. A call of the extended ring acts on the
  \<open>Q\<close> part at \<open>levelQ\<close> and on the \<open>P\<close> part at \<open>levelP\<close>. The first statement
  reads the level of the plaintext, before any test of the plaintext against nil.
\<close>

definition pk_encryptRLWE ::
  "pkEncryptor \<Rightarrow> Plaintext option \<Rightarrow> Ciphertext \<Rightarrow> panic + pkEncryptor \<times> Ciphertext" where
  "pk_encryptRLWE enc plaintext ciphertext =
     (case Plaintext_Level plaintext of
        Inl e \<Rightarrow> Inl e
      | Inr ptLevel \<Rightarrow>
         (let levelQ = min ptLevel (Ciphertext_Level ciphertext);
              levelP = 0;
              ciphertextNTT = IsNTT (ct_Value0 ciphertext);
              k = prng enc;
              uQ0 = TernarySamplerReadLvl k levelQ;
              uP0 = ExtendBasisSmallNormAndCenter uQ0 levelP;
              uQ1 = NTTLvl levelQ uQ0;
              uP1 = NTTLvl levelP uP0;
              uQ = MFormLvl levelQ uQ1;
              uP = MFormLvl levelP uP1;
              a0Q = MulCoeffsMontgomeryLvl levelQ uQ (Coeffs (Q (pk_Value0 (pk enc))));
              a0P = MulCoeffsMontgomeryLvl levelP uP (PCoeffs (pk_Value0 (pk enc)));
              a1Q = MulCoeffsMontgomeryLvl levelQ uQ (Coeffs (Q (pk_Value1 (pk enc))));
              a1P = MulCoeffsMontgomeryLvl levelP uP (PCoeffs (pk_Value1 (pk enc)));
              b0Q = InvNTTLvl levelQ a0Q;
              b0P = InvNTTLvl levelP a0P;
              b1Q = InvNTTLvl levelQ a1Q;
              b1P = InvNTTLvl levelP a1P;
              e0Q = GaussianSamplerReadLvl (k + 1) levelQ;
              e0P = ExtendBasisSmallNormAndCenter e0Q levelP;
              c0Q = AddLvl levelQ b0Q e0Q;
              c0P = AddLvl levelP b0P e0P;
              e1Q = GaussianSamplerReadLvl (k + 2) levelQ;
              e1P = ExtendBasisSmallNormAndCenter e1Q levelP;
              c1Q = AddLvl levelQ b1Q e1Q;
              c1P = AddLvl levelP b1P e1P;
              d0 = ModDownQPtoQ levelQ levelP c0Q c0P;
              d1 = ModDownQPtoQ levelQ levelP c1Q c1P;
              (v0, v1, bQ0) =
                (if ciphertextNTT then
                   (let f0 = (case plaintext of
                                Some pt \<Rightarrow>
                                  if \<not> IsNTT (pt_Value pt)
                                  then AddLvl levelQ d0 (Coeffs (pt_Value pt)) else d0
                              | None \<Rightarrow> d0);
                        g0 = NTTLvl levelQ f0;
                        g1 = NTTLvl levelQ d1;
                        h0 = (case plaintext of
                                Some pt \<Rightarrow>
                                  if IsNTT (pt_Value pt)
                                  then AddLvl levelQ g0 (Coeffs (pt_Value pt)) else g0
                              | None \<Rightarrow> g0)
                    in (h0, g1, e1Q))
                 else
                   (case plaintext of
                      Some pt \<Rightarrow>
                        if \<not> IsNTT (pt_Value pt)
                        then (AddLvl levelQ d0 (Coeffs (pt_Value pt)), d1, e1Q)
                        else (let m = InvNTTLvl levelQ (Coeffs (pt_Value pt))
                              in (AddLvl levelQ d0 m, d1, m))
                    | None \<Rightarrow> (d0, d1, e1Q)));
              written = \<lparr>ct_Value0 = put v0 (ct_Value0 ciphertext),
                         ct_Value1 = put v1 (ct_Value1 ciphertext)\<rparr>
          in case set_flag_and_level written levelQ of
               Inl e \<Rightarrow> Inl e
             | Inr result \<Rightarrow>
                 Inr (enc\<lparr>prng := k + 3, buffQ0 := bQ0, buffP0 := c0P, buffP1 := c1P,
                          buffP2 := e1P\<rparr>, result)))"

text \<open>
  \<^verbatim>\<open>pkEncryptor.encryptNoPRLWE\<close> (lines 276 to 359), the path without an auxiliary
  modulus. The source holds two variants of the plaintext additions (lines 304 to 325
  and 338 to 353), one that reads \<^verbatim>\<open>plaintext.Value\<close> at once and one that first tests
  \<^verbatim>\<open>plaintext != nil\<close>; the test is kept. In the coefficient branch the noise is added
  by \<^verbatim>\<open>ReadAndAddLvl\<close> at the level of the ciphertext, not at \<open>levelQ\<close>.
\<close>

definition pk_encryptNoPRLWE ::
  "pkEncryptor \<Rightarrow> Plaintext option \<Rightarrow> Ciphertext \<Rightarrow> panic + pkEncryptor \<times> Ciphertext" where
  "pk_encryptNoPRLWE enc plaintext ciphertext =
     (case Plaintext_Level plaintext of
        Inl e \<Rightarrow> Inl e
      | Inr ptLevel \<Rightarrow>
         (let levelQ = min ptLevel (Ciphertext_Level ciphertext);
              ciphertextNTT = IsNTT (ct_Value0 ciphertext);
              k = prng enc;
              u0 = TernarySamplerReadLvl k levelQ;
              u1 = NTTLvl levelQ u0;
              u = MFormLvl levelQ u1;
              a0 = MulCoeffsMontgomeryLvl levelQ u (Coeffs (Q (pk_Value0 (pk enc))));
              a1 = MulCoeffsMontgomeryLvl levelQ u (Coeffs (Q (pk_Value1 (pk enc))));
              (v0, v1, bQ0) =
                (if ciphertextNTT then
                   (let e1 = NTTLvl levelQ (GaussianSamplerReadLvl (k + 1) levelQ);
                        b1 = AddLvl levelQ a1 e1;
                        e0 = GaussianSamplerReadLvl (k + 2) levelQ
                    in case plaintext of
                         Some pt \<Rightarrow>
                           if \<not> IsNTT (pt_Value pt)
                           then (let t = NTTLvl levelQ (AddLvl levelQ e0 (Coeffs (pt_Value pt)))
                                 in (AddLvl levelQ a0 t, b1, t))
                           else (let t = NTTLvl levelQ e0
                                 in (AddLvl levelQ (AddLvl levelQ a0 t) (Coeffs (pt_Value pt)),
                                     b1, t))
                       | None \<Rightarrow> (a0, b1, e0))
                 else
                   (let b0 = GaussianSamplerReadAndAddLvl (k + 1) (Ciphertext_Level ciphertext)
                               (InvNTTLvl levelQ a0);
                        b1 = GaussianSamplerReadAndAddLvl (k + 2) (Ciphertext_Level ciphertext)
                               (InvNTTLvl levelQ a1)
                    in case plaintext of
                         Some pt \<Rightarrow>
                           if \<not> IsNTT (pt_Value pt)
                           then (AddLvl levelQ b0 (Coeffs (pt_Value pt)), b1, u)
                           else (let m = InvNTTLvl levelQ (Coeffs (pt_Value pt))
                                 in (AddLvl levelQ b0 m, b1, m))
                       | None \<Rightarrow> (b0, b1, u)));
              written = \<lparr>ct_Value0 = put v0 (ct_Value0 ciphertext),
                         ct_Value1 = put v1 (ct_Value1 ciphertext)\<rparr>
          in case set_flag_and_level written levelQ of
               Inl e \<Rightarrow> Inl e
             | Inr result \<Rightarrow> Inr (enc\<lparr>prng := k + 3, buffQ0 := bQ0\<rparr>, result)))"

text \<open>
  \<^verbatim>\<open>pkEncryptor.Encrypt\<close> (lines 133 to 147). Only an RLWE ciphertext has a case; the
  uniform sampler is read into the mask at the smaller of the two levels (which reads
  the level of the plaintext), and the presence of the basis extender selects the path.
\<close>

definition pk_Encrypt ::
  "pkEncryptor \<Rightarrow> Plaintext option \<Rightarrow> ct_interface \<Rightarrow> panic + pkEncryptor \<times> ct_interface" where
  "pk_Encrypt enc pt ct =
     (case ct of
        RLWE el \<Rightarrow>
          (case Plaintext_Level pt of
             Inl e \<Rightarrow> Inl e
           | Inr ptLevel \<Rightarrow>
              (let lvl = min ptLevel (Ciphertext_Level el);
                   el1 = el\<lparr>ct_Value1 :=
                              put (UniformSamplerQReadLvl (prng enc) lvl) (ct_Value1 el)\<rparr>;
                   enc1 = enc\<lparr>prng := prng enc + 1\<rparr>
               in case (if basisextender enc1 then pk_encryptRLWE enc1 pt el1
                        else pk_encryptNoPRLWE enc1 pt el1) of
                    Inl e \<Rightarrow> Inl e
                  | Inr (enc2, el2) \<Rightarrow> Inr (enc2, RLWE el2)))
      | RGSW el \<Rightarrow> Inl InputCiphertextTypeUnsupported
      | OtherCiphertext \<Rightarrow> Inl InputCiphertextTypeUnsupported)"

text \<open>\<^verbatim>\<open>pkEncryptor.EncryptFromCRP\<close> (lines 150 to 152) is one panic.\<close>

definition pk_EncryptFromCRP ::
  "pkEncryptor \<Rightarrow> Plaintext option \<Rightarrow> Poly \<Rightarrow> Ciphertext \<Rightarrow> panic + pkEncryptor \<times> Ciphertext" where
  "pk_EncryptFromCRP enc pt crp ct = Inl CannotEncryptWithCRPUsingAPublicKey"

subsection \<open>Secret-key encryption\<close>

text \<open>
  \<^verbatim>\<open>skEncryptor.encryptRLWE\<close> (lines 361 to 420). The mask \<^verbatim>\<open>Value[1]\<close> is an input:
  the body starts as minus the product of the mask and the secret key. The source
  holds two variants of lines 378 to 410, delimited by conflict markers. The model
  follows the second one (\<^verbatim>\<open>[rlwe]: further refactoring\<close>), the only one that has a
  branch for a ciphertext in the coefficient domain and that tests the plaintext
  against nil. As in the public-key paths the level of the plaintext is read first,
  and in the coefficient branch the noise is added at the level of the ciphertext.
\<close>

definition sk_encryptRLWE ::
  "skEncryptor \<Rightarrow> Plaintext option \<Rightarrow> Ciphertext \<Rightarrow> panic + skEncryptor \<times> Ciphertext" where
  "sk_encryptRLWE enc plaintext ciphertext =
     (case Plaintext_Level plaintext of
        Inl e \<Rightarrow> Inl e
      | Inr ptLevel \<Rightarrow>
         (let levelQ = min ptLevel (Ciphertext_Level ciphertext);
              ciphertextNTT = IsNTT (ct_Value0 ciphertext);
              k = prng enc;
              mask = Coeffs (ct_Value1 ciphertext);
              a0 = NegLvl levelQ
                     (MulCoeffsMontgomeryLvl levelQ mask (Coeffs (Q (sk_Value (sk enc)))));
              (v0, v1, bQ0) =
                (if ciphertextNTT then
                   (let e = GaussianSamplerReadLvl k levelQ
                    in case plaintext of
                         Some pt \<Rightarrow>
                           if IsNTT (pt_Value pt)
                           then (let t = NTTLvl levelQ e
                                 in (AddLvl levelQ (AddLvl levelQ a0 t) (Coeffs (pt_Value pt)),
                                     mask, t))
                           else (let t = NTTLvl levelQ (AddLvl levelQ e (Coeffs (pt_Value pt)))
                                 in (AddLvl levelQ a0 t, mask, t))
                       | None \<Rightarrow> (a0, mask, e))
                 else
                   (let b0 = (case plaintext of
                                Some pt \<Rightarrow>
                                  if IsNTT (pt_Value pt)
                                  then InvNTTLvl levelQ (AddLvl levelQ a0 (Coeffs (pt_Value pt)))
                                  else AddLvl levelQ (InvNTTLvl levelQ a0) (Coeffs (pt_Value pt))
                              | None \<Rightarrow> a0)
                    in (GaussianSamplerReadAndAddLvl k (Ciphertext_Level ciphertext) b0,
                        InvNTTLvl levelQ mask, buffQ0 enc)));
              written = \<lparr>ct_Value0 = put v0 (ct_Value0 ciphertext),
                         ct_Value1 = put v1 (ct_Value1 ciphertext)\<rparr>
          in case set_flag_and_level written levelQ of
               Inl e \<Rightarrow> Inl e
             | Inr result \<Rightarrow> Inr (enc\<lparr>prng := k + 1, buffQ0 := bQ0\<rparr>, result)))"

text \<open>
  \<^verbatim>\<open>encryptor.encryptZeroSymetricQP\<close> (lines 453 to 498), a method of the embedded
  \<^verbatim>\<open>encryptor\<close> and so of either variant, on the pair \<^verbatim>\<open>ct[0]\<close>, \<^verbatim>\<open>ct[1]\<close>.
  \<^verbatim>\<open>MulCoeffsMontgomeryAndSubLvl\<close> subtracts the product of its first two operands from
  its third.
\<close>

definition encryptZeroSymetricQP ::
  "'a encryptor_scheme \<Rightarrow> int \<Rightarrow> int \<Rightarrow> ringqp_Poly \<Rightarrow> bool \<Rightarrow> bool \<Rightarrow> bool
     \<Rightarrow> ringqp_Poly \<times> ringqp_Poly
     \<Rightarrow> 'a encryptor_scheme \<times> (ringqp_Poly \<times> ringqp_Poly)" where
  "encryptZeroSymetricQP enc levelQ levelP skv sample montgomery ntt ct =
     (let hasModulusP = (P (fst ct) \<noteq> None);
          (enc1, x0) =
            (if ntt then
               (let g = GaussianSamplerReadLvl (prng enc) levelQ;
                    y = putQ g (fst ct);
                    y1 = (if hasModulusP
                          then putP (ExtendBasisSmallNormAndCenter g levelP) y else y)
                in (enc\<lparr>prng := prng enc + 1\<rparr>,
                    putP (NTTLvl levelP (PCoeffs y1)) (putQ (NTTLvl levelQ (Coeffs (Q y1))) y1)))
             else (enc, fst ct));
          (enc2, x1) =
            (if sample then
               (let y = putQ (UniformSamplerQReadLvl (prng enc1) levelQ) (snd ct)
                in if hasModulusP
                   then (enc1\<lparr>prng := prng enc1 + 2\<rparr>,
                         putP (UniformSamplerPReadLvl (prng enc1 + 1) levelP) y)
                   else (enc1\<lparr>prng := prng enc1 + 1\<rparr>, y))
             else (enc1, snd ct));
          z0 = putP (MulCoeffsMontgomeryAndSubLvl levelP (PCoeffs x1) (PCoeffs skv) (PCoeffs x0))
                 (putQ (MulCoeffsMontgomeryAndSubLvl levelQ (Coeffs (Q x1)) (Coeffs (Q skv))
                          (Coeffs (Q x0))) x0);
          (enc3, w0, w1) =
            (if \<not> ntt then
               (let i0 = putP (InvNTTLvl levelP (PCoeffs z0))
                           (putQ (InvNTTLvl levelQ (Coeffs (Q z0))) z0);
                    i1 = putP (InvNTTLvl levelP (PCoeffs x1))
                           (putQ (InvNTTLvl levelQ (Coeffs (Q x1))) x1);
                    g = GaussianSamplerReadLvl (prng enc2) levelQ;
                    e = putQ g (poolQP enc2);
                    e1 = (if hasModulusP
                          then putP (ExtendBasisSmallNormAndCenter g levelP) e else e)
                in (enc2\<lparr>prng := prng enc2 + 1, poolQP := e1\<rparr>,
                    putP (AddLvl levelP (PCoeffs i0) (PCoeffs e1))
                      (putQ (AddLvl levelQ (Coeffs (Q i0)) (Coeffs (Q e1))) i0),
                    i1))
             else (enc2, z0, x1))
      in if montgomery
         then (enc3,
               putP (MFormLvl levelP (PCoeffs w0)) (putQ (MFormLvl levelQ (Coeffs (Q w0))) w0),
               putP (MFormLvl levelP (PCoeffs w1)) (putQ (MFormLvl levelQ (Coeffs (Q w1))) w1))
         else (enc3, w0, w1))"

text \<open>
  \<^verbatim>\<open>skEncryptor.encryptRGSW\<close> (lines 422 to 451). The inner loop runs over the rows
  \<open>i\<close> and the outer one over the digits \<open>j\<close>; each step encrypts zero into
  \<^verbatim>\<open>ct.Value[0].Value[i][j]\<close> and then into \<^verbatim>\<open>ct.Value[1].Value[i][j]\<close>. Indexing a
  matrix outside its bounds panics. \<^verbatim>\<open>gadget.AddPolyToGadgetMatrix\<close> belongs to another
  package and is the parameter \<open>gadd\<close>: from the plaintext's residues, the two
  matrices and \<^verbatim>\<open>LogBase2\<close> it gives the two matrices it leaves behind and what
  it leaves in its buffer, which is \<^verbatim>\<open>poolQP.Q\<close>. The plaintext is put in Montgomery
  form at the level of the target, whatever its own level; the routine compares the
  two nowhere.
\<close>

definition entry :: "gadget_Ciphertext \<Rightarrow> nat \<Rightarrow> nat \<Rightarrow> panic + ringqp_Poly \<times> ringqp_Poly" where
  "entry m i j =
     (if i < length m \<and> j < length (m ! i) then Inr (m ! i ! j) else Inl IndexOutOfRange)"

definition set_entry ::
  "gadget_Ciphertext \<Rightarrow> nat \<Rightarrow> nat \<Rightarrow> ringqp_Poly \<times> ringqp_Poly \<Rightarrow> gadget_Ciphertext" where
  "set_entry m i j v = m[i := (m ! i)[j := v]]"

type_synonym rgsw_state = "skEncryptor \<times> gadget_Ciphertext \<times> gadget_Ciphertext"

definition encryptRGSW_step :: "int \<Rightarrow> int \<Rightarrow> nat \<Rightarrow> nat \<Rightarrow> rgsw_state \<Rightarrow> panic + rgsw_state" where
  "encryptRGSW_step levelQ levelP j i st =
     (case st of (enc, m0, m1) \<Rightarrow>
        (case entry m0 i j of
           Inl e \<Rightarrow> Inl e
         | Inr c0 \<Rightarrow>
            (case encryptZeroSymetricQP enc levelQ levelP (sk_Value (sk enc)) True True True c0 of
               (enc1, c0') \<Rightarrow>
                 (case entry m1 i j of
                    Inl e \<Rightarrow> Inl e
                  | Inr c1 \<Rightarrow>
                     (case encryptZeroSymetricQP enc1 levelQ levelP (sk_Value (sk enc1))
                             True True True c1 of
                        (enc2, c1') \<Rightarrow>
                          Inr (enc2, set_entry m0 i j c0', set_entry m1 i j c1'))))))"

fun encryptRGSW_rows :: "int \<Rightarrow> int \<Rightarrow> nat \<Rightarrow> nat list \<Rightarrow> rgsw_state \<Rightarrow> panic + rgsw_state" where
  "encryptRGSW_rows levelQ levelP j [] st = Inr st"
| "encryptRGSW_rows levelQ levelP j (i # is) st =
     (case encryptRGSW_step levelQ levelP j i st of
        Inl e \<Rightarrow> Inl e
      | Inr st1 \<Rightarrow> encryptRGSW_rows levelQ levelP j is st1)"

fun encryptRGSW_digits ::
  "int \<Rightarrow> int \<Rightarrow> nat \<Rightarrow> nat list \<Rightarrow> rgsw_state \<Rightarrow> panic + rgsw_state" where
  "encryptRGSW_digits levelQ levelP decompRNS [] st = Inr st"
| "encryptRGSW_digits levelQ levelP decompRNS (j # js) st =
     (case encryptRGSW_rows levelQ levelP j [0..<decompRNS] st of
        Inl e \<Rightarrow> Inl e
      | Inr st1 \<Rightarrow> encryptRGSW_digits levelQ levelP decompRNS js st1)"

type_synonym gadget_add =
  "sym \<Rightarrow> gadget_Ciphertext \<times> gadget_Ciphertext \<Rightarrow> int
     \<Rightarrow> gadget_Ciphertext \<times> gadget_Ciphertext \<times> sym"

definition encryptRGSW ::
  "gadget_add \<Rightarrow> skEncryptor \<Rightarrow> Plaintext option \<Rightarrow> rgsw_Ciphertext
     \<Rightarrow> panic + skEncryptor \<times> rgsw_Ciphertext" where
  "encryptRGSW gadd enc pt ct =
     (let levelQ = rgsw_LevelQ ct;
          levelP = rgsw_LevelP ct;
          decompRNS = DecompRNS (params enc) levelQ levelP;
          decompBIT = DecompBIT (params enc) levelQ levelP
      in case encryptRGSW_digits levelQ levelP (nat decompRNS) [0..<nat decompBIT]
                (enc, rgsw_Value0 ct, rgsw_Value1 ct) of
           Inl e \<Rightarrow> Inl e
         | Inr (enc1, m0, m1) \<Rightarrow>
            (case pt of
               None \<Rightarrow> Inr (enc1, ct\<lparr>rgsw_Value0 := m0, rgsw_Value1 := m1\<rparr>)
             | Some p \<Rightarrow>
                (let t0 = MFormLvl levelQ (Coeffs (pt_Value p));
                     t = (if \<not> IsNTT (pt_Value p) then NTTLvl levelQ t0 else t0);
                     (n0, n1, buff) = gadd t (m0, m1) (LogBase2 (params enc1))
                 in Inr (enc1\<lparr>poolQP := putQ buff (poolQP enc1)\<rparr>,
                         ct\<lparr>rgsw_Value0 := n0, rgsw_Value1 := n1\<rparr>))))"

text \<open>
  \<^verbatim>\<open>skEncryptor.Encrypt\<close> (lines 161 to 171) has a case for each of the two kinds of
  ciphertext, and \<^verbatim>\<open>skEncryptor.EncryptFromCRP\<close> (lines 175 to 178) copies the residues
  of the common reference polynomial into the mask instead of sampling it.
\<close>

definition sk_Encrypt ::
  "gadget_add \<Rightarrow> skEncryptor \<Rightarrow> Plaintext option \<Rightarrow> ct_interface
     \<Rightarrow> panic + skEncryptor \<times> ct_interface" where
  "sk_Encrypt gadd enc pt ct =
     (case ct of
        RLWE el \<Rightarrow>
          (case Plaintext_Level pt of
             Inl e \<Rightarrow> Inl e
           | Inr ptLevel \<Rightarrow>
              (let lvl = min ptLevel (Ciphertext_Level el);
                   el1 = el\<lparr>ct_Value1 :=
                              put (UniformSamplerQReadLvl (prng enc) lvl) (ct_Value1 el)\<rparr>;
                   enc1 = enc\<lparr>prng := prng enc + 1\<rparr>
               in case sk_encryptRLWE enc1 pt el1 of
                    Inl e \<Rightarrow> Inl e
                  | Inr (enc2, el2) \<Rightarrow> Inr (enc2, RLWE el2)))
      | RGSW el \<Rightarrow>
          (case encryptRGSW gadd enc pt el of
             Inl e \<Rightarrow> Inl e
           | Inr (enc1, el1) \<Rightarrow> Inr (enc1, RGSW el1))
      | OtherCiphertext \<Rightarrow> Inl InputCiphertextTypeUnsupported)"

definition sk_EncryptFromCRP ::
  "skEncryptor \<Rightarrow> Plaintext option \<Rightarrow> Poly \<Rightarrow> Ciphertext \<Rightarrow> panic + skEncryptor \<times> Ciphertext" where
  "sk_EncryptFromCRP enc pt crp ct =
     sk_encryptRLWE enc pt (ct\<lparr>ct_Value1 := put (Coeffs crp) (ct_Value1 ct)\<rparr>)"

text \<open>
  The interface \<^verbatim>\<open>Encryptor\<close>: a call of \<^verbatim>\<open>Encrypt\<close> or \<^verbatim>\<open>EncryptFromCRP\<close> runs the
  method of the variant \<^verbatim>\<open>setKey\<close> built.
\<close>

definition Encrypt ::
  "gadget_add \<Rightarrow> Encryptor \<Rightarrow> Plaintext option \<Rightarrow> ct_interface
     \<Rightarrow> panic + Encryptor \<times> ct_interface" where
  "Encrypt gadd enc pt ct =
     (case enc of
        PkEncryptor e \<Rightarrow>
          (case pk_Encrypt e pt ct of
             Inl er \<Rightarrow> Inl er | Inr (e1, c1) \<Rightarrow> Inr (PkEncryptor e1, c1))
      | SkEncryptor e \<Rightarrow>
          (case sk_Encrypt gadd e pt ct of
             Inl er \<Rightarrow> Inl er | Inr (e1, c1) \<Rightarrow> Inr (SkEncryptor e1, c1)))"

definition EncryptFromCRP ::
  "Encryptor \<Rightarrow> Plaintext option \<Rightarrow> Poly \<Rightarrow> Ciphertext \<Rightarrow> panic + Encryptor \<times> Ciphertext" where
  "EncryptFromCRP enc pt crp ct =
     (case enc of
        PkEncryptor e \<Rightarrow>
          (case pk_EncryptFromCRP e pt crp ct of
             Inl er \<Rightarrow> Inl er | Inr (e1, c1) \<Rightarrow> Inr (PkEncryptor e1, c1))
      | SkEncryptor e \<Rightarrow>
          (case sk_EncryptFromCRP e pt crp ct of
             Inl er \<Rightarrow> Inl er | Inr (e1, c1) \<Rightarrow> Inr (SkEncryptor e1, c1)))"

subsection \<open>Notions used to state the properties\<close>

text \<open>
  The encryption of zero that the public-key path with an auxiliary modulus computes
  for one component, \<open>(u * pk + e) / P\<close>: \<open>ku\<close> and \<open>ke\<close> are the stream positions
  of the ternary and of the Gaussian read, and \<open>pkv\<close> is the component of the key.
\<close>

definition pk_zero_QP :: "int \<Rightarrow> nat \<Rightarrow> nat \<Rightarrow> ringqp_Poly \<Rightarrow> sym" where
  "pk_zero_QP L ku ke pkv =
     ModDownQPtoQ L 0
       (AddLvl L
          (InvNTTLvl L
             (MulCoeffsMontgomeryLvl L (MFormLvl L (NTTLvl L (TernarySamplerReadLvl ku L)))
                (Coeffs (Q pkv))))
          (GaussianSamplerReadLvl ke L))
       (AddLvl 0
          (InvNTTLvl 0
             (MulCoeffsMontgomeryLvl 0
                (MFormLvl 0
                   (NTTLvl 0 (ExtendBasisSmallNormAndCenter (TernarySamplerReadLvl ku L) 0)))
                (PCoeffs pkv)))
          (ExtendBasisSmallNormAndCenter (GaussianSamplerReadLvl ke L) 0))"

text \<open>
  Modelled from the spec: the ring arithmetic provider is not part of the sources, and
  neither is the domain each of its calls expects and returns. \<open>in_domain env d v\<close>
  says that the symbolic value \<open>v\<close> is an element of the domain \<open>d\<close> and of no
  other (\<open>True\<close> for the NTT domain, \<open>False\<close> for the coefficient domain). The
  forward transform takes coefficients to the NTT domain and the inverse transform
  back, the coefficient-wise product is a ring product only in the NTT domain, the
  basis extension and the mod-down by \<open>P\<close> used here are the ones for coefficients,
  and sums, negation and the Montgomery form keep the domain of their operands, which
  must agree. The samplers have the domain the encryptor reads them in: a Gaussian or
  ternary read is a polynomial of small coefficients, which the code transforms before
  it meets an element of the NTT domain, and a uniform read is an element of the NTT
  domain, which the code multiplies with the key as it is and transforms back for a
  ciphertext in the coefficient domain (line 414). A buffer nothing was written to and
  a nil pointer are elements of neither domain. \<open>env\<close> gives the domain of the
  residues supplied from outside.
\<close>

fun in_domain :: "(nat \<Rightarrow> bool) \<Rightarrow> bool \<Rightarrow> sym \<Rightarrow> bool" where
  "in_domain env d NewPoly = False"
| "in_domain env d NilPoly = False"
| "in_domain env d (Given t) = (env t = d)"
| "in_domain env d (TernarySamplerReadLvl k l) = (\<not> d)"
| "in_domain env d (GaussianSamplerReadLvl k l) = (\<not> d)"
| "in_domain env d (GaussianSamplerReadAndAddLvl k l x) = (\<not> d \<and> in_domain env False x)"
| "in_domain env d (UniformSamplerQReadLvl k l) = d"
| "in_domain env d (UniformSamplerPReadLvl k l) = d"
| "in_domain env d (ExtendBasisSmallNormAndCenter x l) = (\<not> d \<and> in_domain env False x)"
| "in_domain env d (NTTLvl l x) = (d \<and> in_domain env False x)"
| "in_domain env d (InvNTTLvl l x) = (\<not> d \<and> in_domain env True x)"
| "in_domain env d (MFormLvl l x) = in_domain env d x"
| "in_domain env d (NegLvl l x) = in_domain env d x"
| "in_domain env d (AddLvl l x y) = (in_domain env d x \<and> in_domain env d y)"
| "in_domain env d (MulCoeffsMontgomeryLvl l x y) =
     (d \<and> in_domain env True x \<and> in_domain env True y)"
| "in_domain env d (MulCoeffsMontgomeryAndSubLvl l x y z) =
     (d \<and> in_domain env True x \<and> in_domain env True y \<and> in_domain env True z)"
| "in_domain env d (ModDownQPtoQ lq lp x y) =
     (\<not> d \<and> in_domain env False x \<and> in_domain env False y)"

text \<open>
  The keys of an encryptor are kept in the NTT domain (the products with them are
  coefficient-wise); the \<open>P\<close> parts of a public key matter on the path with an
  auxiliary modulus only.
\<close>

definition keys_in_NTT :: "(nat \<Rightarrow> bool) \<Rightarrow> Encryptor \<Rightarrow> bool" where
  "keys_in_NTT env enc =
     (case enc of
        PkEncryptor e \<Rightarrow>
          in_domain env True (Coeffs (Q (pk_Value0 (pk e))))
          \<and> in_domain env True (Coeffs (Q (pk_Value1 (pk e))))
          \<and> (if basisextender e
              then in_domain env True (PCoeffs (pk_Value0 (pk e)))
                   \<and> in_domain env True (PCoeffs (pk_Value1 (pk e)))
              else True)
      | SkEncryptor e \<Rightarrow> in_domain env True (Coeffs (Q (sk_Value (sk e)))))"

text \<open>
  Where the Gaussian noise of a symbolic value was added with respect to the mod-down:
  \<open>Gaussian_before_ModDown v\<close> holds when an operand of a \<open>ModDownQPtoQ\<close> in \<open>v\<close>
  already contains a Gaussian sample, \<open>Gaussian_after_ModDown v\<close> when \<open>v\<close> contains
  a Gaussian sample that is not inside any \<open>ModDownQPtoQ\<close>.
\<close>

fun Gaussian_in :: "sym \<Rightarrow> bool" where
  "Gaussian_in (GaussianSamplerReadLvl k l) = True"
| "Gaussian_in (GaussianSamplerReadAndAddLvl k l x) = True"
| "Gaussian_in (ExtendBasisSmallNormAndCenter x l) = Gaussian_in x"
| "Gaussian_in (NTTLvl l x) = Gaussian_in x"
| "Gaussian_in (InvNTTLvl l x) = Gaussian_in x"
| "Gaussian_in (MFormLvl l x) = Gaussian_in x"
| "Gaussian_in (NegLvl l x) = Gaussian_in x"
| "Gaussian_in (AddLvl l x y) = (Gaussian_in x \<or> Gaussian_in y)"
| "Gaussian_in (MulCoeffsMontgomeryLvl l x y) = (Gaussian_in x \<or> Gaussian_in y)"
| "Gaussian_in (MulCoeffsMontgomeryAndSubLvl l x y z) =
     (Gaussian_in x \<or> Gaussian_in y \<or> Gaussian_in z)"
| "Gaussian_in (ModDownQPtoQ lq lp x y) = (Gaussian_in x \<or> Gaussian_in y)"
| "Gaussian_in _ = False"

fun Gaussian_after_ModDown :: "sym \<Rightarrow> bool" where
  "Gaussian_after_ModDown (GaussianSamplerReadLvl k l) = True"
| "Gaussian_after_ModDown (GaussianSamplerReadAndAddLvl k l x) = True"
| "Gaussian_after_ModDown (ExtendBasisSmallNormAndCenter x l) = Gaussian_after_ModDown x"
| "Gaussian_after_ModDown (NTTLvl l x) = Gaussian_after_ModDown x"
| "Gaussian_after_ModDown (InvNTTLvl l x) = Gaussian_after_ModDown x"
| "Gaussian_after_ModDown (MFormLvl l x) = Gaussian_after_ModDown x"
| "Gaussian_after_ModDown (NegLvl l x) = Gaussian_after_ModDown x"
| "Gaussian_after_ModDown (AddLvl l x y) =
     (Gaussian_after_ModDown x \<or> Gaussian_after_ModDown y)"
| "Gaussian_after_ModDown (MulCoeffsMontgomeryLvl l x y) =
     (Gaussian_after_ModDown x \<or> Gaussian_after_ModDown y)"
| "Gaussian_after_ModDown (MulCoeffsMontgomeryAndSubLvl l x y z) =
     (Gaussian_after_ModDown x \<or> Gaussian_after_ModDown y \<or> Gaussian_after_ModDown z)"
| "Gaussian_after_ModDown (ModDownQPtoQ lq lp x y) = False"
| "Gaussian_after_ModDown _ = False"

fun Gaussian_before_ModDown :: "sym \<Rightarrow> bool" where
  "Gaussian_before_ModDown (ModDownQPtoQ lq lp x y) = (Gaussian_in x \<or> Gaussian_in y)"
| "Gaussian_before_ModDown (GaussianSamplerReadAndAddLvl k l x) = Gaussian_before_ModDown x"
| "Gaussian_before_ModDown (ExtendBasisSmallNormAndCenter x l) = Gaussian_before_ModDown x"
| "Gaussian_before_ModDown (NTTLvl l x) = Gaussian_before_ModDown x"
| "Gaussian_before_ModDown (InvNTTLvl l x) = Gaussian_before_ModDown x"
| "Gaussian_before_ModDown (MFormLvl l x) = Gaussian_before_ModDown x"
| "Gaussian_before_ModDown (NegLvl l x) = Gaussian_before_ModDown x"
| "Gaussian_before_ModDown (AddLvl l x y) =
     (Gaussian_before_ModDown x \<or> Gaussian_before_ModDown y)"
| "Gaussian_before_ModDown (MulCoeffsMontgomeryLvl l x y) =
     (Gaussian_before_ModDown x \<or> Gaussian_before_ModDown y)"
| "Gaussian_before_ModDown (MulCoeffsMontgomeryAndSubLvl l x y z) =
     (Gaussian_before_ModDown x \<or> Gaussian_before_ModDown y \<or> Gaussian_before_ModDown z)"
| "Gaussian_before_ModDown _ = False"

subsection \<open>Test values\<close>

text \<open>
  Concrete inputs in the manner of the package's tests, for parameters with two
  moduli in \<open>Q\<close>: a key pair, a plaintext in the coefficient domain at level 0 and
  one in the NTT domain at level 1, a ciphertext in the NTT domain at level 1 and one
  in the coefficient domain at level 1 (as \<^verbatim>\<open>NewPlaintext\<close>, \<^verbatim>\<open>NewCiphertextNTT\<close> and
  \<^verbatim>\<open>NewCiphertext\<close> allocate them), with the residues of every polynomial tagged
  apart. \<open>test_pkEncryptor pcount\<close> is what \<^verbatim>\<open>NewEncryptor\<close> builds from the public key
  for parameters with \<open>pcount\<close> auxiliary moduli, and \<open>test_sk_small\<close> is a secret
  key of another ring degree. \<open>test_env\<close> gives the domain of each tag: everything is
  in the NTT domain but the plaintext tagged 7 and the ciphertext in the coefficient
  domain.
\<close>

definition test_Poly :: "nat \<Rightarrow> nat \<Rightarrow> bool \<Rightarrow> Poly" where
  "test_Poly t rows ntt =
     \<lparr>Coeffs = Given t, Degree = 8192, Coeffs_len = rows, Coeffs_spare = 0, IsNTT = ntt\<rparr>"

definition test_qp :: "nat \<Rightarrow> nat \<Rightarrow> ringqp_Poly" where
  "test_qp t rows = \<lparr>Q = test_Poly t rows True, P = Some (test_Poly (t + 1) 1 True)\<rparr>"

definition test_params :: "int \<Rightarrow> Parameters" where
  "test_params pcount =
     \<lparr>N = 8192, PCount = pcount, DecompRNS = (\<lambda>levelQ levelP. 2),
      DecompBIT = (\<lambda>levelQ levelP. 1), LogBase2 = 0\<rparr>"

definition test_sk :: SecretKey where
  "test_sk = \<lparr>sk_Value = test_qp 1 2\<rparr>"

definition test_pk :: PublicKey where
  "test_pk = \<lparr>pk_Value0 = test_qp 3 2, pk_Value1 = test_qp 5 2\<rparr>"

definition test_pt :: Plaintext where
  "test_pt = \<lparr>pt_Value = test_Poly 7 1 False\<rparr>"

definition test_pt_NTT :: Plaintext where
  "test_pt_NTT = \<lparr>pt_Value = test_Poly 12 2 True\<rparr>"

definition test_ct :: Ciphertext where
  "test_ct = \<lparr>ct_Value0 = test_Poly 8 2 True, ct_Value1 = test_Poly 9 2 True\<rparr>"

definition test_ct_coeff :: Ciphertext where
  "test_ct_coeff = \<lparr>ct_Value0 = test_Poly 13 2 False, ct_Value1 = test_Poly 14 2 False\<rparr>"

definition test_skEncryptor :: skEncryptor where
  "test_skEncryptor =
     encryptor.extend (newEncryptor (test_params 1) (test_qp 11 2)) (skEncryptor.fields test_sk)"

definition test_pkEncryptor :: "int \<Rightarrow> pkEncryptor" where
  "test_pkEncryptor pcount =
     encryptor.extend (newEncryptor (test_params pcount) (test_qp 11 2))
       (pkEncryptor.fields test_pk)"

definition test_crp :: Poly where
  "test_crp = test_Poly 10 2 True"

definition test_env :: "nat \<Rightarrow> bool" where
  "test_env t = (t \<noteq> 7 \<and> t \<noteq> 13 \<and> t \<noteq> 14)"

definition test_gadd :: gadget_add where
  "test_gadd t ms logBase2 = (fst ms, snd ms, t)"

definition test_rgsw :: rgsw_Ciphertext where
  "test_rgsw =
     \<lparr>rgsw_Value0 = [[(test_qp 20 2, test_qp 22 2)], [(test_qp 24 2, test_qp 26 2)]],
      rgsw_Value1 = [[(test_qp 30 2, test_qp 32 2)], [(test_qp 34 2, test_qp 36 2)]],
      rgsw_LevelQ = 1, rgsw_LevelP = 0\<rparr>"

definition test_sk_small :: SecretKey where
  "test_sk_small = \<lparr>sk_Value = \<lparr>Q = (test_Poly 1 2 True)\<lparr>Degree := 4096\<rparr>, P = None\<rparr>\<rparr>"

section \<open>LWE samples (lwe package)\<close>

text \<open>
  The test \<^verbatim>\<open>testRLWEToLWE\<close> (lines 160 to 185 of the lwe tests) encrypts under a secret
  key, extracts one LWE sample per coefficient with \<^verbatim>\<open>RLWEToLWE\<close> and decrypts each with
  \<^verbatim>\<open>DecryptLWE\<close>. Neither function, nor the decryptor, is in the sources at hand; the
  definitions below follow the spec, over one modulus \<open>q\<close> and on the coefficients of
  the ring elements (coefficient domain).
\<close>

text \<open>
  Modelled from the spec: an LWE sample is a vector \<open>(a_0 .. a_{N-1}, b)\<close> over one
  modulus (the functions of the lwe package are not in the sources).
\<close>

type_synonym lwe_sample = "int list \<times> int"

text \<open>
  Modelled from the spec: an RLWE ciphertext is two ring elements, mask and body (the
  type of the lwe package's input is not in the sources); here their coefficients.
\<close>

record rlwe_coefficients =
  rlwe_mask :: "int list"
  rlwe_body :: "int list"

text \<open>
  Recentring to the signed range, as the tests do it on a decrypted coefficient \<open>c\<close>
  (lines 136 to 151): from \<^verbatim>\<open>qHalf = q >> 1\<close> on the value is \<open>-(q - c)\<close>.
\<close>

definition recentre :: "int \<Rightarrow> int \<Rightarrow> int" where
  "recentre q c = (if q div 2 \<le> c then c - q else c)"

text \<open>
  Modelled from the spec: \<^verbatim>\<open>DecryptLWE\<close> is not in the sources. The decryption of an
  LWE sample is \<open>b - \<Sum> a_i * s_i mod Q\<close>, recentred to the signed range.
\<close>

definition DecryptLWE :: "int \<Rightarrow> lwe_sample \<Rightarrow> int list \<Rightarrow> int" where
  "DecryptLWE q smp s =
     recentre q ((snd smp - (\<Sum>j<length (fst smp). fst smp ! j * s ! j)) mod q)"

text \<open>
  Modelled from the spec: the ring products are the provider's, not in the sources. The
  ring is negacyclic (\<open>X^N = -1\<close>): coefficient \<open>k\<close> of a product \<open>a * s\<close> collects
  the products \<open>a_j * s_l\<close> with \<open>j + l = k\<close> as they are and those with
  \<open>j + l = k + N\<close> negated.
\<close>

definition negacyclic_coeff :: "int list \<Rightarrow> int list \<Rightarrow> nat \<Rightarrow> int" where
  "negacyclic_coeff a s k =
     (let n = length a
      in \<Sum>j<n. \<Sum>l<n. if j + l = k then a ! j * s ! l
                        else if j + l = k + n then - (a ! j * s ! l) else 0)"

text \<open>
  Modelled from the spec: the decryptor is not in the sources. The secret-key
  encryption computes \<open>body = - mask * secret + noise + plaintext\<close>, and decryption
  recovers the plaintext with its noise, so it is \<open>body + mask * secret\<close>, coefficient
  by coefficient modulo \<open>q\<close>.
\<close>

definition DecryptRLWE :: "int \<Rightarrow> rlwe_coefficients \<Rightarrow> int list \<Rightarrow> int list" where
  "DecryptRLWE q ct s =
     map (\<lambda>k. (rlwe_body ct ! k + negacyclic_coeff (rlwe_mask ct) s k) mod q)
       [0..<length (rlwe_mask ct)]"

text \<open>
  Modelled from the spec: \<^verbatim>\<open>ExtractLWE\<close> (\<^verbatim>\<open>RLWEToLWE\<close> in the tests) is not in the
  sources. For the coefficient index \<open>i\<close> the sample has \<open>b\<close> the coefficient \<open>i\<close> of
  the body, and as a-vector the coefficients of the mask permuted and sign-flipped
  along the negacyclic convolution: index \<open>j\<close> carries the mask's coefficient
  \<open>i - j\<close> modulo \<open>N\<close>, and its contribution to the decryption \<open>b - a * s\<close> changes
  sign when \<open>i - j\<close> wraps around. The spec fixes the signs by requiring that the pair
  reproduce coefficient \<open>i\<close> of the decrypted ciphertext: the entries that do not wrap
  are the negated coefficients of the mask, the ones that wrap the coefficients
  themselves, all as residues modulo \<open>q\<close>. \<open>ExtractLWE\<close> gives a sample for each
  selected index.
\<close>

definition ExtractLWE_sample :: "int \<Rightarrow> rlwe_coefficients \<Rightarrow> nat \<Rightarrow> lwe_sample" where
  "ExtractLWE_sample q ct i =
     (let n = length (rlwe_mask ct)
      in (map (\<lambda>j. if j \<le> i then (- (rlwe_mask ct ! (i - j))) mod q
                     else (rlwe_mask ct ! (n + i - j)) mod q) [0..<n],
          rlwe_body ct ! i))"

definition ExtractLWE ::
  "int \<Rightarrow> rlwe_coefficients \<Rightarrow> nat list \<Rightarrow> nat \<Rightarrow> lwe_sample option" where
  "ExtractLWE q ct selected i =
     (if i \<in> set selected \<and> i < length (rlwe_mask ct) then Some (ExtractLWE_sample q ct i)
      else None)"

text \<open>A ciphertext of ring degree 4 modulo 97 and a ternary secret, as test values.\<close>

definition test_rlwe :: rlwe_coefficients where
  "test_rlwe = \<lparr>rlwe_mask = [3, 5, 7, 11], rlwe_body = [10, 20, 30, 86]\<rparr>"

definition test_secret :: "int list" where
  "test_secret = [1, 0, - 1, 1]"

section \<open>Properties of \<^verbatim>\<open>Copy\<close>\<close>

lemma go_copy_make_same: "go_copy (go_make (length xs)) xs = xs"
  by (simp add: go_copy_def go_make_def)

lemma CtSDepth_Default0: "unat (CtSDepth (DefaultBootstrapParams0 sigma) True) = 4"
  by (simp add: CtSDepth_def DefaultBootstrapParams0_def)

lemma StCDepth_Default0: "unat (StCDepth (DefaultBootstrapParams0 sigma) True) = 2"
  by (simp add: StCDepth_def DefaultBootstrapParams0_def)

lemma copy_rows_CtS_Default0:
  "copy_rows 0 4 (CtS_ScalingFactor (CoeffsToSlots (DefaultBootstrapParams0 sigma)))
     = Some (CtS_ScalingFactor (CoeffsToSlots (DefaultBootstrapParams0 sigma)))"
  by (simp add: DefaultBootstrapParams0_def eval_nat_numeral go_copy_def go_make_def)

lemma copy_rows_StC_Default0:
  "copy_rows 0 2 (StC_ScalingFactor (SlotsToCoeffs (DefaultBootstrapParams0 sigma)))
     = Some (StC_ScalingFactor (SlotsToCoeffs (DefaultBootstrapParams0 sigma)))"
  by (simp add: DefaultBootstrapParams0_def eval_nat_numeral go_copy_def go_make_def)

text \<open>
  Claim C10. \<^verbatim>\<open>Copy\<close> is documented as returning a copy of its receiver. On the
  first default parameter set it returns a value that differs from the receiver:
  \<^verbatim>\<open>LogN\<close>, \<^verbatim>\<open>LogSlots\<close> and \<^verbatim>\<open>Scale\<close> are left at zero, \<^verbatim>\<open>KeySwitchModuli\<close>
  is left empty, and \<^verbatim>\<open>SineEvalModuli.Qi\<close> is allocated with the depth of the
  CoeffsToSlots step (4) instead of its own length (8), so that only its first four
  moduli arrive in the copy.
\<close>

theorem Copy_DefaultBootstrapParams0:
  "\<exists>c. Copy (DefaultBootstrapParams0 sigma) = Some c
     \<and> c \<noteq> DefaultBootstrapParams0 sigma
     \<and> LogN (DefaultBootstrapParams0 sigma) = 16 \<and> LogN c = 0
     \<and> LogSlots (DefaultBootstrapParams0 sigma) = 15 \<and> LogSlots c = 0
     \<and> Scale (DefaultBootstrapParams0 sigma) = 0x42c0000000000000 \<and> Scale c = 0
     \<and> length (KeySwitchModuli (DefaultBootstrapParams0 sigma)) = 5
     \<and> KeySwitchModuli c = []
     \<and> length (Sine_Qi (SineEval (DefaultBootstrapParams0 sigma))) = 8
     \<and> Sine_Qi (SineEval c) =
           [0x80000000440001, 0x7fffffffba0001, 0x80000000500001, 0x7fffffffaa0001]
     \<and> ResidualModuli c = ResidualModuli (DefaultBootstrapParams0 sigma)
     \<and> CoeffsToSlots c = CoeffsToSlots (DefaultBootstrapParams0 sigma)
     \<and> SlotsToCoeffs c = SlotsToCoeffs (DefaultBootstrapParams0 sigma)"
  unfolding Copy_def Let_def CtSDepth_Default0 StCDepth_Default0
    copy_rows_CtS_Default0 copy_rows_StC_Default0
  by (simp add: DefaultBootstrapParams0_def go_copy_def go_make_def eval_nat_numeral)

text \<open>
  The loops over the scaling factors copy the rows they visit, and \<^verbatim>\<open>Copy\<close> never
  panics. It returns a value equal to its receiver exactly when the receiver has the
  fields \<^verbatim>\<open>Copy\<close> leaves out at their zero values and each of its three \<^verbatim>\<open>Qi\<close> lists
  is as long as the scaling-factor matrix \<^verbatim>\<open>Copy\<close> sizes it by.
\<close>

lemma copy_rows_take:
  "i + n \<le> length src \<Longrightarrow> copy_rows i n src = Some (take n (drop i src))"
proof (induction n arbitrary: i)
  case 0
  then show ?case by simp
next
  case (Suc n)
  then have i: "i < length src" and "Suc i + n \<le> length src" by simp_all
  from Suc.IH[OF this(2)] i show ?case
    by (simp add: go_copy_make_same Cons_nth_drop_Suc[symmetric])
qed

lemma unat_depth_le: "unat (of_nat n :: 64 word) \<le> n"
  by (simp add: unat_of_nat)

lemma go_copy_make_eq_iff: "go_copy (go_make n) xs = xs \<longleftrightarrow> length xs = n"
proof
  assume "go_copy (go_make n) xs = xs"
  then have "length (go_copy (go_make n) xs) = length xs" by simp
  then show "length xs = n" by (simp add: go_copy_def go_make_def)
qed (auto simp: go_copy_make_same)

lemma take_eq_iff: "take m xs = xs \<longleftrightarrow> length xs \<le> m"
  by (metis length_take min.absorb_iff1 take_all min.commute)

lemma Copy_returns_equal_iff:
  "Copy b = Some b \<longleftrightarrow>
     LogN b = 0 \<and> LogSlots b = 0 \<and> Scale b = 0 \<and> Sigma b = 0 \<and> KeySwitchModuli b = []
     \<and> length (CtS_ScalingFactor (CoeffsToSlots b)) = unat (CtSDepth b True)
     \<and> length (StC_ScalingFactor (SlotsToCoeffs b)) = unat (StCDepth b True)
     \<and> length (CtS_Qi (CoeffsToSlots b)) = unat (CtSDepth b True)
     \<and> length (Sine_Qi (SineEval b)) = unat (CtSDepth b True)
     \<and> length (StC_Qi (SlotsToCoeffs b)) = unat (StCDepth b True)"
proof -
  let ?mC = "unat (CtSDepth b True)" and ?mS = "unat (StCDepth b True)"
  have c: "copy_rows 0 ?mC (CtS_ScalingFactor (CoeffsToSlots b))
             = Some (take ?mC (CtS_ScalingFactor (CoeffsToSlots b)))"
    using copy_rows_take[of 0 ?mC "CtS_ScalingFactor (CoeffsToSlots b)"]
    by (simp add: CtSDepth_def unat_depth_le)
  have d: "copy_rows 0 ?mS (StC_ScalingFactor (SlotsToCoeffs b))
             = Some (take ?mS (StC_ScalingFactor (SlotsToCoeffs b)))"
    using copy_rows_take[of 0 ?mS "StC_ScalingFactor (SlotsToCoeffs b)"]
    by (simp add: StCDepth_def unat_depth_le)
  have lc: "?mC \<le> length (CtS_ScalingFactor (CoeffsToSlots b))"
    by (simp add: CtSDepth_def unat_depth_le)
  have ls: "?mS \<le> length (StC_ScalingFactor (SlotsToCoeffs b))"
    by (simp add: StCDepth_def unat_depth_le)
  obtain rm km stc se cts ln lsl sc sg h st mr sr sd srs asd mx where
    b: "b = \<lparr>ResidualModuli = rm, KeySwitchModuli = km, SlotsToCoeffs = stc, SineEval = se,
            CoeffsToSlots = cts, LogN = ln, LogSlots = lsl, Scale = sc, Sigma = sg, H = h,
            SinType = st, MessageRatio = mr, SinRange = sr, SinDeg = sd, SinRescal = srs,
            ArcSineDeg = asd, MaxN1N2Ratio = mx\<rparr>"
    by (cases b) auto
  obtain sq ssf where stc: "stc = \<lparr>StC_Qi = sq, StC_ScalingFactor = ssf\<rparr>" by (cases stc) auto
  obtain eq esf where se: "se = \<lparr>Sine_Qi = eq, Sine_ScalingFactor = esf\<rparr>" by (cases se) auto
  obtain cq csf where cts: "cts = \<lparr>CtS_Qi = cq, CtS_ScalingFactor = csf\<rparr>" by (cases cts) auto
  show ?thesis
    unfolding Copy_def Let_def c d
    using lc ls
    by (auto simp: b stc se cts go_copy_make_same go_copy_make_eq_iff take_eq_iff)
qed

section \<open>Properties of the encryptor\<close>

subsection \<open>The closing statements\<close>

lemma reslice_Inr:
  "reslice p n = Inr q \<Longrightarrow>
     0 \<le> n \<and> Coeffs q = Coeffs p \<and> IsNTT q = IsNTT p \<and> Degree q = Degree p
       \<and> Coeffs_len q = nat n"
  by (auto simp: reslice_def split: if_splits)

lemma reslice_Inl: "reslice p n = Inl e \<Longrightarrow> e = SliceBoundsOutOfRange"
  by (simp add: reslice_def split: if_splits)

lemma set_flag_and_level_Inr:
  assumes "set_flag_and_level c l = Inr r"
  shows "IsNTT (ct_Value0 r) = IsNTT (ct_Value0 c)"
    and "IsNTT (ct_Value1 r) = IsNTT (ct_Value0 c)"
    and "Coeffs (ct_Value0 r) = Coeffs (ct_Value0 c)"
    and "Coeffs (ct_Value1 r) = Coeffs (ct_Value1 c)"
    and "Coeffs_len (ct_Value0 r) = nat (l + 1)"
    and "Coeffs_len (ct_Value1 r) = nat (l + 1)"
    and "0 \<le> l + 1"
  using assms
  by (auto simp: set_flag_and_level_def Let_def split: sum.splits dest!: reslice_Inr)

lemma set_flag_and_level_Inl:
  "set_flag_and_level c l = Inl e \<Longrightarrow> e = SliceBoundsOutOfRange"
  by (auto simp: set_flag_and_level_def Let_def split: sum.splits dest: reslice_Inl)

lemma set_flag_and_level_Coeffs:
  "set_flag_and_level c l = Inr r \<Longrightarrow>
     Coeffs (ct_Value0 r) = Coeffs (ct_Value0 c) \<and> Coeffs (ct_Value1 r) = Coeffs (ct_Value1 c)"
  by (simp add: set_flag_and_level_Inr)

lemma set_flag_and_level_written:
  assumes "set_flag_and_level
             \<lparr>ct_Value0 = put x (ct_Value0 ct), ct_Value1 = put y (ct_Value1 ct)\<rparr>
             (min (Poly_Level (pt_Value p)) (Ciphertext_Level ct)) = Inr ct'"
  shows "IsNTT (ct_Value0 ct') = IsNTT (ct_Value0 ct)
     \<and> IsNTT (ct_Value1 ct') = IsNTT (ct_Value0 ct)
     \<and> Poly_Level (ct_Value0 ct') = min (Poly_Level (pt_Value p)) (Ciphertext_Level ct)
     \<and> Poly_Level (ct_Value1 ct') = min (Poly_Level (pt_Value p)) (Ciphertext_Level ct)"
  using set_flag_and_level_Inr[OF assms]
  by (simp add: put_def Poly_Level_def)

subsection \<open>What a returning call has done\<close>

lemma pk_encryptRLWE_shape:
  assumes "pk_encryptRLWE enc pt ct = Inr (enc', ct')"
  shows "\<exists>p x y. pt = Some p
     \<and> set_flag_and_level
          \<lparr>ct_Value0 = put x (ct_Value0 ct), ct_Value1 = put y (ct_Value1 ct)\<rparr>
          (min (Poly_Level (pt_Value p)) (Ciphertext_Level ct)) = Inr ct'"
proof (cases pt)
  case None
  with assms show ?thesis by (simp add: pk_encryptRLWE_def Plaintext_Level_def)
next
  case (Some p)
  with assms show ?thesis
    by (simp add: pk_encryptRLWE_def Plaintext_Level_def Let_def split_beta
          split: sum.splits) blast
qed

lemma pk_encryptNoPRLWE_shape:
  assumes "pk_encryptNoPRLWE enc pt ct = Inr (enc', ct')"
  shows "\<exists>p x y. pt = Some p
     \<and> set_flag_and_level
          \<lparr>ct_Value0 = put x (ct_Value0 ct), ct_Value1 = put y (ct_Value1 ct)\<rparr>
          (min (Poly_Level (pt_Value p)) (Ciphertext_Level ct)) = Inr ct'"
proof (cases pt)
  case None
  with assms show ?thesis by (simp add: pk_encryptNoPRLWE_def Plaintext_Level_def)
next
  case (Some p)
  with assms show ?thesis
    by (simp add: pk_encryptNoPRLWE_def Plaintext_Level_def Let_def split_beta
          split: sum.splits) blast
qed

lemma sk_encryptRLWE_shape:
  assumes "sk_encryptRLWE enc pt ct = Inr (enc', ct')"
  shows "\<exists>p x y. pt = Some p
     \<and> set_flag_and_level
          \<lparr>ct_Value0 = put x (ct_Value0 ct), ct_Value1 = put y (ct_Value1 ct)\<rparr>
          (min (Poly_Level (pt_Value p)) (Ciphertext_Level ct)) = Inr ct'"
proof (cases pt)
  case None
  with assms show ?thesis by (simp add: sk_encryptRLWE_def Plaintext_Level_def)
next
  case (Some p)
  with assms show ?thesis
    by (simp add: sk_encryptRLWE_def Plaintext_Level_def Let_def split_beta
          split: sum.splits) blast
qed

lemma pk_Encrypt_Inr:
  assumes "pk_Encrypt enc pt (RLWE ct) = Inr (enc', c')"
  shows "\<exists>p ct'. pt = Some p \<and> c' = RLWE ct'
     \<and> IsNTT (ct_Value0 ct') = IsNTT (ct_Value0 ct)
     \<and> IsNTT (ct_Value1 ct') = IsNTT (ct_Value0 ct)
     \<and> Poly_Level (ct_Value0 ct') = min (Poly_Level (pt_Value p)) (Ciphertext_Level ct)
     \<and> Poly_Level (ct_Value1 ct') = min (Poly_Level (pt_Value p)) (Ciphertext_Level ct)"
proof (cases pt)
  case None
  with assms show ?thesis by (simp add: pk_Encrypt_def Plaintext_Level_def)
next
  case (Some p)
  let ?ct1 = "ct\<lparr>ct_Value1 := put (UniformSamplerQReadLvl (prng enc)
      (min (Poly_Level (pt_Value p)) (Ciphertext_Level ct))) (ct_Value1 ct)\<rparr>"
  from assms Some obtain e1 ct' where c': "c' = RLWE ct'"
    and r: "pk_encryptRLWE e1 pt ?ct1 = Inr (enc', ct')
            \<or> pk_encryptNoPRLWE e1 pt ?ct1 = Inr (enc', ct')"
    by (auto simp: pk_Encrypt_def Plaintext_Level_def Let_def split: sum.splits if_splits)
  from r obtain x y where "set_flag_and_level
          \<lparr>ct_Value0 = put x (ct_Value0 ?ct1), ct_Value1 = put y (ct_Value1 ?ct1)\<rparr>
          (min (Poly_Level (pt_Value p)) (Ciphertext_Level ?ct1)) = Inr ct'"
    using Some by (auto dest!: pk_encryptRLWE_shape pk_encryptNoPRLWE_shape)
  from set_flag_and_level_written[OF this] Some c' show ?thesis
    by (simp add: Ciphertext_Level_def)
qed

lemma sk_Encrypt_Inr:
  assumes "sk_Encrypt gadd enc pt (RLWE ct) = Inr (enc', c')"
  shows "\<exists>p ct'. pt = Some p \<and> c' = RLWE ct'
     \<and> IsNTT (ct_Value0 ct') = IsNTT (ct_Value0 ct)
     \<and> IsNTT (ct_Value1 ct') = IsNTT (ct_Value0 ct)
     \<and> Poly_Level (ct_Value0 ct') = min (Poly_Level (pt_Value p)) (Ciphertext_Level ct)
     \<and> Poly_Level (ct_Value1 ct') = min (Poly_Level (pt_Value p)) (Ciphertext_Level ct)"
proof (cases pt)
  case None
  with assms show ?thesis by (simp add: sk_Encrypt_def Plaintext_Level_def)
next
  case (Some p)
  let ?ct1 = "ct\<lparr>ct_Value1 := put (UniformSamplerQReadLvl (prng enc)
      (min (Poly_Level (pt_Value p)) (Ciphertext_Level ct))) (ct_Value1 ct)\<rparr>"
  from assms Some obtain e1 ct' where c': "c' = RLWE ct'"
    and r: "sk_encryptRLWE e1 pt ?ct1 = Inr (enc', ct')"
    by (auto simp: sk_Encrypt_def Plaintext_Level_def Let_def split: sum.splits if_splits)
  from r obtain x y where "set_flag_and_level
          \<lparr>ct_Value0 = put x (ct_Value0 ?ct1), ct_Value1 = put y (ct_Value1 ?ct1)\<rparr>
          (min (Poly_Level (pt_Value p)) (Ciphertext_Level ?ct1)) = Inr ct'"
    using Some by (auto dest!: sk_encryptRLWE_shape)
  from set_flag_and_level_written[OF this] Some c' show ?thesis
    by (simp add: Ciphertext_Level_def)
qed

lemma sk_EncryptFromCRP_Inr:
  assumes "sk_EncryptFromCRP enc pt crp ct = Inr (enc', ct')"
  shows "\<exists>p. pt = Some p
     \<and> IsNTT (ct_Value0 ct') = IsNTT (ct_Value0 ct)
     \<and> IsNTT (ct_Value1 ct') = IsNTT (ct_Value0 ct)
     \<and> Poly_Level (ct_Value0 ct') = min (Poly_Level (pt_Value p)) (Ciphertext_Level ct)
     \<and> Poly_Level (ct_Value1 ct') = min (Poly_Level (pt_Value p)) (Ciphertext_Level ct)"
proof -
  let ?ct1 = "ct\<lparr>ct_Value1 := put (Coeffs crp) (ct_Value1 ct)\<rparr>"
  from assms obtain p x y where p: "pt = Some p" and "set_flag_and_level
          \<lparr>ct_Value0 = put x (ct_Value0 ?ct1), ct_Value1 = put y (ct_Value1 ?ct1)\<rparr>
          (min (Poly_Level (pt_Value p)) (Ciphertext_Level ?ct1)) = Inr ct'"
    unfolding sk_EncryptFromCRP_def by (auto dest!: sk_encryptRLWE_shape)
  from set_flag_and_level_written[OF this(2)] p show ?thesis
    by (simp add: Ciphertext_Level_def)
qed

lemma Encrypt_Inr:
  assumes "Encrypt gadd enc pt (RLWE ct) = Inr (enc', c')"
  shows "\<exists>p ct'. pt = Some p \<and> c' = RLWE ct'
     \<and> IsNTT (ct_Value0 ct') = IsNTT (ct_Value0 ct)
     \<and> IsNTT (ct_Value1 ct') = IsNTT (ct_Value0 ct)
     \<and> Poly_Level (ct_Value0 ct') = min (Poly_Level (pt_Value p)) (Ciphertext_Level ct)
     \<and> Poly_Level (ct_Value1 ct') = min (Poly_Level (pt_Value p)) (Ciphertext_Level ct)"
proof (cases enc)
  case (PkEncryptor e)
  with assms obtain e' where "pk_Encrypt e pt (RLWE ct) = Inr (e', c')"
    by (auto simp: Encrypt_def split: sum.splits)
  then show ?thesis by (rule pk_Encrypt_Inr)
next
  case (SkEncryptor e)
  with assms obtain e' where "sk_Encrypt gadd e pt (RLWE ct) = Inr (e', c')"
    by (auto simp: Encrypt_def split: sum.splits)
  then show ?thesis by (rule sk_Encrypt_Inr)
qed

lemma EncryptFromCRP_Inr:
  assumes "EncryptFromCRP enc pt crp ct = Inr (enc', ct')"
  shows "\<exists>p. pt = Some p
     \<and> IsNTT (ct_Value0 ct') = IsNTT (ct_Value0 ct)
     \<and> IsNTT (ct_Value1 ct') = IsNTT (ct_Value0 ct)
     \<and> Poly_Level (ct_Value0 ct') = min (Poly_Level (pt_Value p)) (Ciphertext_Level ct)
     \<and> Poly_Level (ct_Value1 ct') = min (Poly_Level (pt_Value p)) (Ciphertext_Level ct)"
proof (cases enc)
  case (PkEncryptor e)
  with assms show ?thesis
    by (simp add: EncryptFromCRP_def pk_EncryptFromCRP_def)
next
  case (SkEncryptor e)
  with assms obtain e' where "sk_EncryptFromCRP e pt crp ct = Inr (e', ct')"
    by (auto simp: EncryptFromCRP_def split: sum.splits)
  then show ?thesis by (rule sk_EncryptFromCRP_Inr)
qed

subsection \<open>The panics of a call\<close>

text \<open>
  The statements of the three RLWE routines panic in two places only: where the level
  of a nil plaintext is read, and where the closing statements cut \<^verbatim>\<open>Coeffs\<close> beyond
  its capacity. The RGSW routine panics where it indexes a matrix out of range. None
  of them compares a level or a ring degree with the parameters.
\<close>

lemma Plaintext_Level_Inl: "Plaintext_Level pt = Inl e \<Longrightarrow> e = NilPointerDereference"
  by (simp add: Plaintext_Level_def split: option.splits)

lemma pk_encryptRLWE_Inl:
  "pk_encryptRLWE enc pt ct = Inl e \<Longrightarrow> e = NilPointerDereference \<or> e = SliceBoundsOutOfRange"
  by (auto simp: pk_encryptRLWE_def Let_def split_beta split: sum.splits
      dest: Plaintext_Level_Inl set_flag_and_level_Inl)

lemma pk_encryptNoPRLWE_Inl:
  "pk_encryptNoPRLWE enc pt ct = Inl e \<Longrightarrow> e = NilPointerDereference \<or> e = SliceBoundsOutOfRange"
  by (auto simp: pk_encryptNoPRLWE_def Let_def split_beta split: sum.splits
      dest: Plaintext_Level_Inl set_flag_and_level_Inl)

lemma sk_encryptRLWE_Inl:
  "sk_encryptRLWE enc pt ct = Inl e \<Longrightarrow> e = NilPointerDereference \<or> e = SliceBoundsOutOfRange"
  by (auto simp: sk_encryptRLWE_def Let_def split_beta split: sum.splits
      dest: Plaintext_Level_Inl set_flag_and_level_Inl)

lemma entry_Inl: "entry m i j = Inl e \<Longrightarrow> e = IndexOutOfRange"
  by (simp add: entry_def split: if_splits)

lemma encryptRGSW_step_Inl:
  "encryptRGSW_step lq lp j i st = Inl e \<Longrightarrow> e = IndexOutOfRange"
  by (auto simp: encryptRGSW_step_def split: prod.splits sum.splits dest: entry_Inl)

lemma encryptRGSW_rows_Inl:
  "encryptRGSW_rows lq lp j is st = Inl e \<Longrightarrow> e = IndexOutOfRange"
  by (induction "is" arbitrary: st) (auto split: sum.splits dest: encryptRGSW_step_Inl)

lemma encryptRGSW_digits_Inl:
  "encryptRGSW_digits lq lp r js st = Inl e \<Longrightarrow> e = IndexOutOfRange"
  by (induction js arbitrary: st) (auto split: sum.splits dest: encryptRGSW_rows_Inl)

lemma encryptRGSW_Inl:
  "encryptRGSW gadd enc pt ct = Inl e \<Longrightarrow> e = IndexOutOfRange"
  by (auto simp: encryptRGSW_def Let_def split_beta split: sum.splits option.splits
      dest: encryptRGSW_digits_Inl)

lemma encryptRGSW_Inr:
  "encryptRGSW gadd enc pt ct = Inr (enc', ct') \<Longrightarrow>
     rgsw_LevelQ ct' = rgsw_LevelQ ct \<and> rgsw_LevelP ct' = rgsw_LevelP ct"
  by (auto simp: encryptRGSW_def Let_def split_beta split: sum.splits option.splits)

lemma pk_Encrypt_Inl:
  "pk_Encrypt enc pt c = Inl e \<Longrightarrow>
     e = NilPointerDereference \<or> e = SliceBoundsOutOfRange \<or> e = InputCiphertextTypeUnsupported"
  by (cases c)
    (auto simp: pk_Encrypt_def Let_def split: sum.splits if_splits
      dest: Plaintext_Level_Inl pk_encryptRLWE_Inl pk_encryptNoPRLWE_Inl)

lemma sk_Encrypt_Inl:
  "sk_Encrypt gadd enc pt c = Inl e \<Longrightarrow>
     e = NilPointerDereference \<or> e = SliceBoundsOutOfRange \<or> e = IndexOutOfRange
     \<or> e = InputCiphertextTypeUnsupported"
  by (cases c)
    (auto simp: sk_Encrypt_def Let_def split: sum.splits
      dest: Plaintext_Level_Inl sk_encryptRLWE_Inl encryptRGSW_Inl)

lemma Encrypt_Inl:
  "Encrypt gadd enc pt c = Inl e \<Longrightarrow>
     e = NilPointerDereference \<or> e = SliceBoundsOutOfRange \<or> e = IndexOutOfRange
     \<or> e = InputCiphertextTypeUnsupported"
  by (cases enc) (auto simp: Encrypt_def split: sum.splits dest: pk_Encrypt_Inl sk_Encrypt_Inl)

subsection \<open>The values a returning call leaves in the ciphertext\<close>

lemma pk_encryptRLWE_values:
  assumes "pk_encryptRLWE enc (Some p) ct = Inr (enc', ct')"
  shows "(let L = min (Poly_Level (pt_Value p)) (Ciphertext_Level ct);
              k = prng enc;
              z0 = pk_zero_QP L k (k + 1) (pk_Value0 (pk enc));
              z1 = pk_zero_QP L k (k + 2) (pk_Value1 (pk enc));
              m = Coeffs (pt_Value p)
          in Coeffs (ct_Value1 ct') = (if IsNTT (ct_Value0 ct) then NTTLvl L z1 else z1)
           \<and> Coeffs (ct_Value0 ct') =
               (if IsNTT (ct_Value0 ct)
                then (if IsNTT (pt_Value p) then AddLvl L (NTTLvl L z0) m
                      else NTTLvl L (AddLvl L z0 m))
                else (if IsNTT (pt_Value p) then AddLvl L z0 (InvNTTLvl L m)
                      else AddLvl L z0 m)))"
  using assms
  by (auto simp: pk_encryptRLWE_def Plaintext_Level_def Let_def pk_zero_QP_def put_def
      split: sum.splits if_splits dest!: set_flag_and_level_Coeffs)

lemma sk_encryptRLWE_values:
  assumes "sk_encryptRLWE enc (Some p) ct = Inr (enc', ct')"
  shows "(let L = min (Poly_Level (pt_Value p)) (Ciphertext_Level ct);
              a = Coeffs (ct_Value1 ct);
              s = Coeffs (Q (sk_Value (sk enc)));
              e = GaussianSamplerReadLvl (prng enc) L;
              m = Coeffs (pt_Value p);
              as = NegLvl L (MulCoeffsMontgomeryLvl L a s)
          in Coeffs (ct_Value1 ct') = (if IsNTT (ct_Value0 ct) then a else InvNTTLvl L a)
           \<and> Coeffs (ct_Value0 ct') =
               (if IsNTT (ct_Value0 ct)
                then (if IsNTT (pt_Value p) then AddLvl L (AddLvl L as (NTTLvl L e)) m
                      else AddLvl L as (NTTLvl L (AddLvl L e m)))
                else GaussianSamplerReadAndAddLvl (prng enc) (Ciphertext_Level ct)
                       (if IsNTT (pt_Value p) then InvNTTLvl L (AddLvl L as m)
                        else AddLvl L (InvNTTLvl L as) m)))"
  using assms
  by (auto simp: sk_encryptRLWE_def Plaintext_Level_def Let_def put_def
      split: sum.splits if_splits dest!: set_flag_and_level_Coeffs)

lemma pk_encryptNoPRLWE_values:
  assumes "pk_encryptNoPRLWE enc (Some p) ct = Inr (enc', ct')"
  shows "(let L = min (Poly_Level (pt_Value p)) (Ciphertext_Level ct);
              k = prng enc;
              u = MFormLvl L (NTTLvl L (TernarySamplerReadLvl k L));
              a0 = MulCoeffsMontgomeryLvl L u (Coeffs (Q (pk_Value0 (pk enc))));
              a1 = MulCoeffsMontgomeryLvl L u (Coeffs (Q (pk_Value1 (pk enc))));
              m = Coeffs (pt_Value p)
          in Coeffs (ct_Value1 ct') =
               (if IsNTT (ct_Value0 ct)
                then AddLvl L a1 (NTTLvl L (GaussianSamplerReadLvl (k + 1) L))
                else GaussianSamplerReadAndAddLvl (k + 2) (Ciphertext_Level ct) (InvNTTLvl L a1))
           \<and> Coeffs (ct_Value0 ct') =
               (if IsNTT (ct_Value0 ct)
                then (if IsNTT (pt_Value p)
                      then AddLvl L (AddLvl L a0 (NTTLvl L (GaussianSamplerReadLvl (k + 2) L))) m
                      else AddLvl L a0 (NTTLvl L (AddLvl L (GaussianSamplerReadLvl (k + 2) L) m)))
                else AddLvl L
                       (GaussianSamplerReadAndAddLvl (k + 1) (Ciphertext_Level ct) (InvNTTLvl L a0))
                       (if IsNTT (pt_Value p) then InvNTTLvl L m else m)))"
  using assms
  by (auto simp: pk_encryptNoPRLWE_def Plaintext_Level_def Let_def put_def
      split: sum.splits if_splits dest!: set_flag_and_level_Coeffs)

lemma pk_Encrypt_unfold:
  assumes "pk_Encrypt enc (Some p) (RLWE ct) = Inr (enc', c')"
  shows "\<exists>ct'. c' = RLWE ct' \<and>
     (if basisextender enc
      then pk_encryptRLWE (enc\<lparr>prng := prng enc + 1\<rparr>) (Some p)
             (ct\<lparr>ct_Value1 := put (UniformSamplerQReadLvl (prng enc)
                (min (Poly_Level (pt_Value p)) (Ciphertext_Level ct))) (ct_Value1 ct)\<rparr>)
      else pk_encryptNoPRLWE (enc\<lparr>prng := prng enc + 1\<rparr>) (Some p)
             (ct\<lparr>ct_Value1 := put (UniformSamplerQReadLvl (prng enc)
                (min (Poly_Level (pt_Value p)) (Ciphertext_Level ct))) (ct_Value1 ct)\<rparr>))
       = Inr (enc', ct')"
  using assms
  by (auto simp: pk_Encrypt_def Plaintext_Level_def Let_def split: sum.splits if_splits)

lemma sk_Encrypt_unfold:
  assumes "sk_Encrypt gadd enc (Some p) (RLWE ct) = Inr (enc', c')"
  shows "\<exists>ct'. c' = RLWE ct' \<and>
     sk_encryptRLWE (enc\<lparr>prng := prng enc + 1\<rparr>) (Some p)
             (ct\<lparr>ct_Value1 := put (UniformSamplerQReadLvl (prng enc)
                (min (Poly_Level (pt_Value p)) (Ciphertext_Level ct))) (ct_Value1 ct)\<rparr>)
       = Inr (enc', ct')"
  using assms
  by (auto simp: sk_Encrypt_def Plaintext_Level_def Let_def split: sum.splits if_splits)

text \<open>
  Through \<^verbatim>\<open>Encrypt\<close>, which has taken one read from the stream for the mask before
  the routine starts: under a public key the routine overwrites that read, under a
  secret key it is the mask.
\<close>

lemma pk_Encrypt_residues:
  assumes "pk_Encrypt enc pt (RLWE ct) = Inr (enc', c')"
  shows "\<exists>p ct'. pt = Some p \<and> c' = RLWE ct' \<and>
     (let L = min (Poly_Level (pt_Value p)) (Ciphertext_Level ct);
          k = prng enc;
          m = Coeffs (pt_Value p)
      in if basisextender enc
         then (let z0 = pk_zero_QP L (k + 1) (k + 2) (pk_Value0 (pk enc));
                   z1 = pk_zero_QP L (k + 1) (k + 3) (pk_Value1 (pk enc))
               in Coeffs (ct_Value1 ct') = (if IsNTT (ct_Value0 ct) then NTTLvl L z1 else z1)
                \<and> Coeffs (ct_Value0 ct') =
                    (if IsNTT (ct_Value0 ct)
                     then (if IsNTT (pt_Value p) then AddLvl L (NTTLvl L z0) m
                           else NTTLvl L (AddLvl L z0 m))
                     else (if IsNTT (pt_Value p) then AddLvl L z0 (InvNTTLvl L m)
                           else AddLvl L z0 m)))
         else (let u = MFormLvl L (NTTLvl L (TernarySamplerReadLvl (k + 1) L));
                   a0 = MulCoeffsMontgomeryLvl L u (Coeffs (Q (pk_Value0 (pk enc))));
                   a1 = MulCoeffsMontgomeryLvl L u (Coeffs (Q (pk_Value1 (pk enc))))
               in Coeffs (ct_Value1 ct') =
                    (if IsNTT (ct_Value0 ct)
                     then AddLvl L a1 (NTTLvl L (GaussianSamplerReadLvl (k + 2) L))
                     else GaussianSamplerReadAndAddLvl (k + 3) (Ciphertext_Level ct)
                            (InvNTTLvl L a1))
                \<and> Coeffs (ct_Value0 ct') =
                    (if IsNTT (ct_Value0 ct)
                     then (if IsNTT (pt_Value p)
                           then AddLvl L
                                  (AddLvl L a0 (NTTLvl L (GaussianSamplerReadLvl (k + 3) L))) m
                           else AddLvl L a0
                                  (NTTLvl L (AddLvl L (GaussianSamplerReadLvl (k + 3) L) m)))
                     else AddLvl L
                            (GaussianSamplerReadAndAddLvl (k + 2) (Ciphertext_Level ct)
                               (InvNTTLvl L a0))
                            (if IsNTT (pt_Value p) then InvNTTLvl L m else m))))"
proof -
  from pk_Encrypt_Inr[OF assms] obtain p where p: "pt = Some p" by blast
  let ?e1 = "enc\<lparr>prng := prng enc + 1\<rparr>"
  let ?ct1 = "ct\<lparr>ct_Value1 := put (UniformSamplerQReadLvl (prng enc)
                (min (Poly_Level (pt_Value p)) (Ciphertext_Level ct))) (ct_Value1 ct)\<rparr>"
  from pk_Encrypt_unfold[OF assms[unfolded p]] obtain ct' where c': "c' = RLWE ct'"
    and r: "(if basisextender enc then pk_encryptRLWE ?e1 (Some p) ?ct1
             else pk_encryptNoPRLWE ?e1 (Some p) ?ct1) = Inr (enc', ct')" by blast
  show ?thesis
  proof (cases "basisextender enc")
    case True
    with r have "pk_encryptRLWE ?e1 (Some p) ?ct1 = Inr (enc', ct')" by simp
    from pk_encryptRLWE_values[OF this] p c' True show ?thesis
      by (simp add: Let_def Ciphertext_Level_def numeral_2_eq_2 numeral_3_eq_3)
  next
    case False
    with r have "pk_encryptNoPRLWE ?e1 (Some p) ?ct1 = Inr (enc', ct')" by simp
    from pk_encryptNoPRLWE_values[OF this] p c' False show ?thesis
      by (simp add: Let_def Ciphertext_Level_def numeral_2_eq_2 numeral_3_eq_3)
  qed
qed

lemma sk_Encrypt_residues:
  assumes "sk_Encrypt gadd enc pt (RLWE ct) = Inr (enc', c')"
  shows "\<exists>p ct'. pt = Some p \<and> c' = RLWE ct' \<and>
     (let L = min (Poly_Level (pt_Value p)) (Ciphertext_Level ct);
          a = UniformSamplerQReadLvl (prng enc) L;
          s = Coeffs (Q (sk_Value (sk enc)));
          e = GaussianSamplerReadLvl (prng enc + 1) L;
          m = Coeffs (pt_Value p);
          as = NegLvl L (MulCoeffsMontgomeryLvl L a s)
      in Coeffs (ct_Value1 ct') = (if IsNTT (ct_Value0 ct) then a else InvNTTLvl L a)
       \<and> Coeffs (ct_Value0 ct') =
           (if IsNTT (ct_Value0 ct)
            then (if IsNTT (pt_Value p) then AddLvl L (AddLvl L as (NTTLvl L e)) m
                  else AddLvl L as (NTTLvl L (AddLvl L e m)))
            else GaussianSamplerReadAndAddLvl (prng enc + 1) (Ciphertext_Level ct)
                   (if IsNTT (pt_Value p) then InvNTTLvl L (AddLvl L as m)
                    else AddLvl L (InvNTTLvl L as) m)))"
proof -
  from sk_Encrypt_Inr[OF assms(1)] obtain p where p: "pt = Some p" by blast
  from sk_Encrypt_unfold[OF assms(1)[unfolded p]] obtain ct' where c': "c' = RLWE ct'"
    and r: "sk_encryptRLWE (enc\<lparr>prng := prng enc + 1\<rparr>) (Some p)
             (ct\<lparr>ct_Value1 := put (UniformSamplerQReadLvl (prng enc)
                (min (Poly_Level (pt_Value p)) (Ciphertext_Level ct))) (ct_Value1 ct)\<rparr>)
           = Inr (enc', ct')" by auto
  from sk_encryptRLWE_values[OF r] p c' show ?thesis
    by (simp add: Let_def Ciphertext_Level_def put_def)
qed

subsection \<open>The calls on the test values\<close>

lemmas test_defs = test_Poly_def test_qp_def test_params_def test_sk_def test_pk_def test_pt_def
  test_pt_NTT_def test_ct_def test_ct_coeff_def test_skEncryptor_def test_pkEncryptor_def
  test_crp_def test_env_def test_gadd_def test_rgsw_def newEncryptor_def encryptor.defs
  skEncryptor.defs pkEncryptor.defs

lemmas eval_defs = Plaintext_Level_def Ciphertext_Level_def Poly_Level_def Let_def
  set_flag_and_level_def reslice_def put_def PCoeffs_def

lemma test_levels:
  "Ciphertext_Level test_ct = 1" "Poly_Level (pt_Value test_pt) = 0"
  "IsNTT (ct_Value0 test_ct)" "\<not> IsNTT (pt_Value test_pt)"
  "Ciphertext_Level test_ct_coeff = 1" "Poly_Level (pt_Value test_pt_NTT) = 1"
  "\<not> IsNTT (ct_Value0 test_ct_coeff)" "IsNTT (pt_Value test_pt_NTT)"
  by (simp_all add: Ciphertext_Level_def Poly_Level_def test_defs)

lemma test_pk_Encrypt_value:
  "pk_Encrypt (test_pkEncryptor 1) (Some test_pt) (RLWE test_ct) =
     Inr ((test_pkEncryptor 1)
            \<lparr>prng := 4,
             buffQ0 := GaussianSamplerReadLvl 3 0,
             buffP0 := AddLvl 0
                 (InvNTTLvl 0 (MulCoeffsMontgomeryLvl 0
                    (MFormLvl 0 (NTTLvl 0 (ExtendBasisSmallNormAndCenter (TernarySamplerReadLvl 1 0) 0)))
                    (Given 4)))
                 (ExtendBasisSmallNormAndCenter (GaussianSamplerReadLvl 2 0) 0),
             buffP1 := AddLvl 0
                 (InvNTTLvl 0 (MulCoeffsMontgomeryLvl 0
                    (MFormLvl 0 (NTTLvl 0 (ExtendBasisSmallNormAndCenter (TernarySamplerReadLvl 1 0) 0)))
                    (Given 6)))
                 (ExtendBasisSmallNormAndCenter (GaussianSamplerReadLvl 3 0) 0),
             buffP2 := ExtendBasisSmallNormAndCenter (GaussianSamplerReadLvl 3 0) 0\<rparr>,
          RLWE \<lparr>ct_Value0 =
                   \<lparr>Coeffs = NTTLvl 0 (AddLvl 0 (pk_zero_QP 0 1 2 (pk_Value0 test_pk)) (Given 7)),
                    Degree = 8192, Coeffs_len = 1, Coeffs_spare = 1, IsNTT = True\<rparr>,
                 ct_Value1 =
                   \<lparr>Coeffs = NTTLvl 0 (pk_zero_QP 0 1 3 (pk_Value1 test_pk)),
                    Degree = 8192, Coeffs_len = 1, Coeffs_spare = 1, IsNTT = True\<rparr>\<rparr>)"
  by (simp add: pk_Encrypt_def pk_encryptRLWE_def eval_defs pk_zero_QP_def test_defs)

lemma test_pk_Encrypt_returns:
  "\<exists>enc' ct'. pk_Encrypt (test_pkEncryptor 1) (Some test_pt) (RLWE test_ct)
      = Inr (enc', RLWE ct')"
  by (simp add: test_pk_Encrypt_value)

lemma test_pk_Encrypt_without_P_returns:
  "\<exists>enc' ct'. pk_Encrypt (test_pkEncryptor 0) (Some test_pt) (RLWE test_ct)
      = Inr (enc', RLWE ct')"
  by (simp add: pk_Encrypt_def pk_encryptNoPRLWE_def eval_defs test_defs)

lemma test_pk_encryptNoPRLWE_returns:
  "\<exists>enc' ct'. pk_encryptNoPRLWE (test_pkEncryptor 0) (Some test_pt) test_ct = Inr (enc', ct')"
  by (simp add: pk_encryptNoPRLWE_def eval_defs test_defs)

lemma test_sk_Encrypt_returns:
  "\<exists>enc' ct'. sk_Encrypt test_gadd test_skEncryptor (Some test_pt) (RLWE test_ct)
      = Inr (enc', RLWE ct')"
  by (simp add: sk_Encrypt_def sk_encryptRLWE_def eval_defs test_defs)

lemma test_sk_Encrypt_coeff_returns:
  "\<exists>enc' ct'. sk_Encrypt test_gadd test_skEncryptor (Some test_pt_NTT) (RLWE test_ct_coeff)
      = Inr (enc', RLWE ct')"
  by (simp add: sk_Encrypt_def sk_encryptRLWE_def eval_defs test_defs)

lemma test_sk_EncryptFromCRP_returns:
  "\<exists>enc' ct'. sk_EncryptFromCRP test_skEncryptor (Some test_pt) test_crp test_ct
      = Inr (enc', ct')"
  by (simp add: sk_EncryptFromCRP_def sk_encryptRLWE_def eval_defs test_defs)

lemma test_Encrypt_returns:
  "\<exists>enc' ct'. Encrypt test_gadd (PkEncryptor (test_pkEncryptor 1)) (Some test_pt) (RLWE test_ct)
      = Inr (enc', RLWE ct')"
  "\<exists>enc' ct'. Encrypt test_gadd (SkEncryptor test_skEncryptor) (Some test_pt) (RLWE test_ct)
      = Inr (enc', RLWE ct')"
  "\<exists>enc' ct'. Encrypt test_gadd (SkEncryptor test_skEncryptor) (Some test_pt_NTT)
      (RLWE test_ct_coeff) = Inr (enc', RLWE ct')"
  "\<exists>enc' ct'. EncryptFromCRP (SkEncryptor test_skEncryptor) (Some test_pt) test_crp test_ct
      = Inr (enc', ct')"
  using test_pk_Encrypt_returns test_sk_Encrypt_returns test_sk_Encrypt_coeff_returns
    test_sk_EncryptFromCRP_returns
  by (auto simp: Encrypt_def EncryptFromCRP_def)

subsection \<open>The gadget matrices of an RGSW ciphertext\<close>

text \<open>
  Each entry of the matrices becomes an encryption of zero in Montgomery form: the
  mask is a fresh uniform read, the body the transformed Gaussian noise minus the
  product of the mask and the secret key.
\<close>

lemma encryptZeroSymetricQP_values:
  "(case encryptZeroSymetricQP enc levelQ levelP skv True True True (c0, c1) of
      (enc', d0, d1) \<Rightarrow>
        Coeffs (Q d1) = MFormLvl levelQ (UniformSamplerQReadLvl (prng enc + 1) levelQ)
        \<and> Coeffs (Q d0) =
            MFormLvl levelQ
              (MulCoeffsMontgomeryAndSubLvl levelQ
                 (UniformSamplerQReadLvl (prng enc + 1) levelQ) (Coeffs (Q skv))
                 (NTTLvl levelQ (GaussianSamplerReadLvl (prng enc) levelQ)))
        \<and> prng enc' = prng enc + (if P c0 = None then 2 else 3)
        \<and> (P d0 = None \<longleftrightarrow> P c0 = None) \<and> (P d1 = None \<longleftrightarrow> P c1 = None))"
  by (simp add: encryptZeroSymetricQP_def Let_def putQ_def putP_def put_def split_beta)

lemma test_encryptRGSW_step_returns:
  assumes "i < 2" "length m0 = 2" "length m1 = 2"
    "\<forall>r < 2. length (m0 ! r) = 1 \<and> length (m1 ! r) = 1"
  shows "\<exists>enc' n0 n1. encryptRGSW_step lq lp 0 i (enc, m0, m1) = Inr (enc', n0, n1)
     \<and> length n0 = 2 \<and> length n1 = 2 \<and> (\<forall>r < 2. length (n0 ! r) = 1 \<and> length (n1 ! r) = 1)"
  using assms
  by (auto simp: encryptRGSW_step_def entry_def set_entry_def nth_list_update
      split: prod.splits)

lemma test_encryptRGSW_returns:
  "\<exists>enc' g'. encryptRGSW test_gadd test_skEncryptor None test_rgsw = Inr (enc', g')"
  "\<exists>enc' g'. encryptRGSW test_gadd test_skEncryptor (Some test_pt_NTT) test_rgsw = Inr (enc', g')"
proof -
  let ?st = "(test_skEncryptor, rgsw_Value0 test_rgsw, rgsw_Value1 test_rgsw)"
  have d: "length (rgsw_Value0 test_rgsw) = 2" "length (rgsw_Value1 test_rgsw) = 2"
    "\<forall>r < 2. length (rgsw_Value0 test_rgsw ! r) = 1 \<and> length (rgsw_Value1 test_rgsw ! r) = 1"
    by (simp_all add: test_rgsw_def less_2_cases_iff)
  from test_encryptRGSW_step_returns[OF _ d, of 0 1 0 test_skEncryptor]
  obtain e1 a0 a1 where s1: "encryptRGSW_step 1 0 0 0 ?st = Inr (e1, a0, a1)"
    and d1: "length a0 = 2" "length a1 = 2" "\<forall>r < 2. length (a0 ! r) = 1 \<and> length (a1 ! r) = 1"
    by auto
  from test_encryptRGSW_step_returns[OF _ d1, of 1 1 0 e1]
  obtain e2 b0 b1 where s2: "encryptRGSW_step 1 0 0 1 (e1, a0, a1) = Inr (e2, b0, b1)"
    by auto
  have u: "[0..<2] = [0, 1]" "[0..<nat 1] = [0]" "nat 2 = 2" by (simp_all add: upt_rec)
  from s1 s2 have dg: "encryptRGSW_digits 1 0 (nat 2) [0..<nat 1] ?st = Inr (e2, b0, b1)"
    by (simp add: u)
  have l: "rgsw_LevelQ test_rgsw = 1" "rgsw_LevelP test_rgsw = 0"
    by (simp_all add: test_rgsw_def)
  have p: "DecompRNS (params test_skEncryptor) lq lp = 2"
    "DecompBIT (params test_skEncryptor) lq lp = 1" for lq lp
    by (simp_all add: test_skEncryptor_def test_params_def newEncryptor_def encryptor.defs
        skEncryptor.defs)
  show "\<exists>enc' g'. encryptRGSW test_gadd test_skEncryptor None test_rgsw = Inr (enc', g')"
    unfolding encryptRGSW_def Let_def l p dg by simp
  show "\<exists>enc' g'. encryptRGSW test_gadd test_skEncryptor (Some test_pt_NTT) test_rgsw
        = Inr (enc', g')"
    unfolding encryptRGSW_def Let_def l p dg by (simp add: split_beta)
qed

subsection \<open>The order of the steps of the public-key path\<close>

text \<open>
  Claim C1 as the spec states it: with an auxiliary modulus the public-key path mods
  down by \<open>P\<close> and only then adds the Gaussian noise. On the test values the call
  returns a ciphertext in which both components carry their Gaussian sample inside the
  operands of the mod-down and none outside it: the noise was added before.
\<close>

theorem pk_Encrypt_noise_before_ModDown:
  "(case pk_Encrypt (test_pkEncryptor 1) (Some test_pt) (RLWE test_ct) of
      Inr (enc', RLWE ct') \<Rightarrow>
        Gaussian_before_ModDown (Coeffs (ct_Value0 ct'))
        \<and> \<not> Gaussian_after_ModDown (Coeffs (ct_Value0 ct'))
        \<and> Gaussian_before_ModDown (Coeffs (ct_Value1 ct'))
        \<and> \<not> Gaussian_after_ModDown (Coeffs (ct_Value1 ct'))
    | _ \<Rightarrow> False)"
  by (simp add: test_pk_Encrypt_value pk_zero_QP_def)

text \<open>
  Claim C1, amended. Whenever the public-key \<^verbatim>\<open>Encrypt\<close> with an auxiliary modulus
  returns, it was given a plaintext and has computed for each component the value
  \<open>pk_zero_QP\<close>: the ephemeral ternary \<open>u\<close> (read after the uniform read of
  \<^verbatim>\<open>Encrypt\<close>) lifted to \<open>Q \<union> P\<close>, transformed and put in Montgomery form, multiplied
  with the component of the public key, transformed back, then the component's own
  Gaussian sample (lifted likewise) added, and only then the mod-down by \<open>P\<close>. The
  plaintext is added to the body \<^verbatim>\<open>Value[0]\<close> after the mod-down, before or after the
  forward transform according to its domain.
\<close>

theorem pk_Encrypt_with_P_steps:
  assumes "pk_Encrypt enc pt (RLWE ct) = Inr (enc', c')" and "basisextender enc"
  shows "\<exists>p ct'. pt = Some p \<and> c' = RLWE ct' \<and>
     (let L = min (Poly_Level (pt_Value p)) (Ciphertext_Level ct);
          k = prng enc;
          z0 = pk_zero_QP L (k + 1) (k + 2) (pk_Value0 (pk enc));
          z1 = pk_zero_QP L (k + 1) (k + 3) (pk_Value1 (pk enc));
          m = Coeffs (pt_Value p)
      in Coeffs (ct_Value1 ct') = (if IsNTT (ct_Value0 ct) then NTTLvl L z1 else z1)
       \<and> Coeffs (ct_Value0 ct') =
           (if IsNTT (ct_Value0 ct)
            then (if IsNTT (pt_Value p) then AddLvl L (NTTLvl L z0) m
                  else NTTLvl L (AddLvl L z0 m))
            else (if IsNTT (pt_Value p) then AddLvl L z0 (InvNTTLvl L m)
                  else AddLvl L z0 m)))"
  using pk_Encrypt_residues[OF assms(1)] assms(2) by (simp add: Let_def)

theorem pk_Encrypt_with_P_steps_witness:
  "basisextender (test_pkEncryptor 1)
   \<and> (\<exists>enc' ct'. pk_Encrypt (test_pkEncryptor 1) (Some test_pt) (RLWE test_ct)
          = Inr (enc', RLWE ct')
        \<and> Coeffs (ct_Value1 ct') = NTTLvl 0 (pk_zero_QP 0 1 3 (pk_Value1 test_pk))
        \<and> Coeffs (ct_Value0 ct') =
            NTTLvl 0 (AddLvl 0 (pk_zero_QP 0 1 2 (pk_Value0 test_pk)) (Given 7)))"
proof -
  have b: "basisextender (test_pkEncryptor 1)" by (simp add: test_defs)
  from test_pk_Encrypt_returns obtain e c where
    h: "pk_Encrypt (test_pkEncryptor 1) (Some test_pt) (RLWE test_ct) = Inr (e, RLWE c)"
    by blast
  from pk_Encrypt_with_P_steps[OF h b] test_levels
  have "Coeffs (ct_Value1 c) = NTTLvl 0 (pk_zero_QP 0 1 3 (pk_Value1 test_pk))
        \<and> Coeffs (ct_Value0 c) =
            NTTLvl 0 (AddLvl 0 (pk_zero_QP 0 1 2 (pk_Value0 test_pk)) (Given 7))"
    by (simp add: Let_def test_defs numeral_2_eq_2 numeral_3_eq_3)
  with h b show ?thesis by blast
qed

text \<open>
  Without an auxiliary modulus the same product and noise are computed directly over
  \<open>Q\<close>: each component is \<open>u * pk + e\<close>, the noise of the mask read before that of
  the body for a ciphertext in the NTT domain and after it otherwise.
\<close>

lemma pk_Encrypt_without_P_steps:
  assumes "pk_Encrypt enc pt (RLWE ct) = Inr (enc', c')" and "\<not> basisextender enc"
  shows "\<exists>p ct'. pt = Some p \<and> c' = RLWE ct' \<and>
     (let L = min (Poly_Level (pt_Value p)) (Ciphertext_Level ct);
          k = prng enc;
          u = MFormLvl L (NTTLvl L (TernarySamplerReadLvl (k + 1) L));
          a0 = MulCoeffsMontgomeryLvl L u (Coeffs (Q (pk_Value0 (pk enc))));
          a1 = MulCoeffsMontgomeryLvl L u (Coeffs (Q (pk_Value1 (pk enc))));
          m = Coeffs (pt_Value p)
      in Coeffs (ct_Value1 ct') =
           (if IsNTT (ct_Value0 ct)
            then AddLvl L a1 (NTTLvl L (GaussianSamplerReadLvl (k + 2) L))
            else GaussianSamplerReadAndAddLvl (k + 3) (Ciphertext_Level ct) (InvNTTLvl L a1))
       \<and> Coeffs (ct_Value0 ct') =
           (if IsNTT (ct_Value0 ct)
            then (if IsNTT (pt_Value p)
                  then AddLvl L (AddLvl L a0 (NTTLvl L (GaussianSamplerReadLvl (k + 3) L))) m
                  else AddLvl L a0 (NTTLvl L (AddLvl L (GaussianSamplerReadLvl (k + 3) L) m)))
            else AddLvl L
                   (GaussianSamplerReadAndAddLvl (k + 2) (Ciphertext_Level ct) (InvNTTLvl L a0))
                   (if IsNTT (pt_Value p) then InvNTTLvl L m else m)))"
  using pk_Encrypt_residues[OF assms(1)] assms(2) by (simp add: Let_def)

lemma pk_Encrypt_without_P_steps_example:
  "\<not> basisextender (test_pkEncryptor 0)
   \<and> (\<exists>enc' ct'. pk_Encrypt (test_pkEncryptor 0) (Some test_pt) (RLWE test_ct)
          = Inr (enc', RLWE ct')
        \<and> Coeffs (ct_Value1 ct') =
            AddLvl 0 (MulCoeffsMontgomeryLvl 0 (MFormLvl 0 (NTTLvl 0 (TernarySamplerReadLvl 1 0)))
                        (Given 5))
              (NTTLvl 0 (GaussianSamplerReadLvl 2 0))
        \<and> Coeffs (ct_Value0 ct') =
            AddLvl 0 (MulCoeffsMontgomeryLvl 0 (MFormLvl 0 (NTTLvl 0 (TernarySamplerReadLvl 1 0)))
                        (Given 3))
              (NTTLvl 0 (AddLvl 0 (GaussianSamplerReadLvl 3 0) (Given 7))))"
proof -
  have b: "\<not> basisextender (test_pkEncryptor 0)" by (simp add: test_defs)
  from test_pk_Encrypt_without_P_returns obtain e c where
    h: "pk_Encrypt (test_pkEncryptor 0) (Some test_pt) (RLWE test_ct) = Inr (e, RLWE c)"
    by blast
  from pk_Encrypt_without_P_steps[OF h b] test_levels
  have "Coeffs (ct_Value1 c) =
            AddLvl 0 (MulCoeffsMontgomeryLvl 0 (MFormLvl 0 (NTTLvl 0 (TernarySamplerReadLvl 1 0)))
                        (Given 5))
              (NTTLvl 0 (GaussianSamplerReadLvl 2 0))
        \<and> Coeffs (ct_Value0 c) =
            AddLvl 0 (MulCoeffsMontgomeryLvl 0 (MFormLvl 0 (NTTLvl 0 (TernarySamplerReadLvl 1 0)))
                        (Given 3))
              (NTTLvl 0 (AddLvl 0 (GaussianSamplerReadLvl 3 0) (Given 7)))"
    by (simp add: Let_def test_defs numeral_2_eq_2 numeral_3_eq_3)
  with h b show ?thesis by blast
qed

subsection \<open>Secret-key encryption of a plaintext\<close>

text \<open>
  Claim C2. When a plaintext is supplied and the secret-key \<^verbatim>\<open>Encrypt\<close> on an RLWE
  ciphertext returns, the mask \<^verbatim>\<open>Value[1]\<close> is the uniform read over \<open>Q\<close> at the
  operating level \<open>L\<close> (the smaller of the two levels), brought to the ciphertext's
  domain, and the body \<^verbatim>\<open>Value[0]\<close> is minus the product of that uniform read with
  the secret key, plus a Gaussian sample, plus the plaintext, each addend brought to
  the ciphertext's domain, as the claim says. When no plaintext is supplied, where the
  claim has the body without the plaintext, the call writes no ciphertext: the level
  of the nil plaintext is read first, which panics, whatever the encryptor and the
  ciphertext.
\<close>

theorem sk_Encrypt_mask_and_body:
  "sk_Encrypt gadd enc None (RLWE ct) = Inl NilPointerDereference
   \<and> (sk_Encrypt gadd enc (Some p) (RLWE ct) = Inr (enc', c') \<longrightarrow>
        (\<exists>ct'. c' = RLWE ct' \<and>
          (let L = min (Poly_Level (pt_Value p)) (Ciphertext_Level ct);
               a = UniformSamplerQReadLvl (prng enc) L;
               s = Coeffs (Q (sk_Value (sk enc)));
               e = GaussianSamplerReadLvl (prng enc + 1) L;
               m = Coeffs (pt_Value p);
               as = NegLvl L (MulCoeffsMontgomeryLvl L a s)
           in Coeffs (ct_Value1 ct') = (if IsNTT (ct_Value0 ct) then a else InvNTTLvl L a)
            \<and> Coeffs (ct_Value0 ct') =
                (if IsNTT (ct_Value0 ct)
                 then (if IsNTT (pt_Value p) then AddLvl L (AddLvl L as (NTTLvl L e)) m
                       else AddLvl L as (NTTLvl L (AddLvl L e m)))
                 else GaussianSamplerReadAndAddLvl (prng enc + 1) (Ciphertext_Level ct)
                        (if IsNTT (pt_Value p) then InvNTTLvl L (AddLvl L as m)
                         else AddLvl L (InvNTTLvl L as) m)))))"
proof (intro conjI impI)
  show "sk_Encrypt gadd enc None (RLWE ct) = Inl NilPointerDereference"
    by (simp add: sk_Encrypt_def Plaintext_Level_def)
next
  assume "sk_Encrypt gadd enc (Some p) (RLWE ct) = Inr (enc', c')"
  from sk_Encrypt_residues[OF this]
  show "\<exists>ct'. c' = RLWE ct' \<and>
          (let L = min (Poly_Level (pt_Value p)) (Ciphertext_Level ct);
               a = UniformSamplerQReadLvl (prng enc) L;
               s = Coeffs (Q (sk_Value (sk enc)));
               e = GaussianSamplerReadLvl (prng enc + 1) L;
               m = Coeffs (pt_Value p);
               as = NegLvl L (MulCoeffsMontgomeryLvl L a s)
           in Coeffs (ct_Value1 ct') = (if IsNTT (ct_Value0 ct) then a else InvNTTLvl L a)
            \<and> Coeffs (ct_Value0 ct') =
                (if IsNTT (ct_Value0 ct)
                 then (if IsNTT (pt_Value p) then AddLvl L (AddLvl L as (NTTLvl L e)) m
                       else AddLvl L as (NTTLvl L (AddLvl L e m)))
                 else GaussianSamplerReadAndAddLvl (prng enc + 1) (Ciphertext_Level ct)
                        (if IsNTT (pt_Value p) then InvNTTLvl L (AddLvl L as m)
                         else AddLvl L (InvNTTLvl L as) m)))"
    by simp
qed

theorem sk_Encrypt_mask_and_body_witness:
  "sk_Encrypt test_gadd test_skEncryptor None (RLWE test_ct) = Inl NilPointerDereference
   \<and> (\<exists>enc' ct'. sk_Encrypt test_gadd test_skEncryptor (Some test_pt) (RLWE test_ct)
          = Inr (enc', RLWE ct')
        \<and> Coeffs (ct_Value1 ct') = UniformSamplerQReadLvl 0 0
        \<and> Coeffs (ct_Value0 ct') =
            AddLvl 0 (NegLvl 0 (MulCoeffsMontgomeryLvl 0 (UniformSamplerQReadLvl 0 0) (Given 1)))
              (NTTLvl 0 (AddLvl 0 (GaussianSamplerReadLvl 1 0) (Given 7))))
   \<and> (\<exists>enc' ct'. sk_Encrypt test_gadd test_skEncryptor (Some test_pt_NTT) (RLWE test_ct_coeff)
          = Inr (enc', RLWE ct')
        \<and> Coeffs (ct_Value1 ct') = InvNTTLvl 1 (UniformSamplerQReadLvl 0 1)
        \<and> Coeffs (ct_Value0 ct') =
            GaussianSamplerReadAndAddLvl 1 1
              (InvNTTLvl 1
                 (AddLvl 1
                    (NegLvl 1 (MulCoeffsMontgomeryLvl 1 (UniformSamplerQReadLvl 0 1) (Given 1)))
                    (Given 12))))"
proof -
  from test_sk_Encrypt_returns obtain e c where
    h: "sk_Encrypt test_gadd test_skEncryptor (Some test_pt) (RLWE test_ct) = Inr (e, RLWE c)"
    by blast
  from sk_Encrypt_mask_and_body[where gadd = test_gadd and enc = test_skEncryptor
      and p = test_pt and ct = test_ct and enc' = e and c' = "RLWE c"] h test_levels
  have 1: "Coeffs (ct_Value1 c) = UniformSamplerQReadLvl 0 0
        \<and> Coeffs (ct_Value0 c) =
            AddLvl 0 (NegLvl 0 (MulCoeffsMontgomeryLvl 0 (UniformSamplerQReadLvl 0 0) (Given 1)))
              (NTTLvl 0 (AddLvl 0 (GaussianSamplerReadLvl 1 0) (Given 7)))"
    by (simp add: Let_def test_defs)
  from test_sk_Encrypt_coeff_returns obtain e' c' where
    h': "sk_Encrypt test_gadd test_skEncryptor (Some test_pt_NTT) (RLWE test_ct_coeff)
          = Inr (e', RLWE c')"
    by blast
  from sk_Encrypt_mask_and_body[where gadd = test_gadd and enc = test_skEncryptor
      and p = test_pt_NTT and ct = test_ct_coeff and enc' = e' and c' = "RLWE c'"] h' test_levels
  have 2: "Coeffs (ct_Value1 c') = InvNTTLvl 1 (UniformSamplerQReadLvl 0 1)
        \<and> Coeffs (ct_Value0 c') =
            GaussianSamplerReadAndAddLvl 1 1
              (InvNTTLvl 1
                 (AddLvl 1
                    (NegLvl 1 (MulCoeffsMontgomeryLvl 1 (UniformSamplerQReadLvl 0 1) (Given 1)))
                    (Given 12)))"
    by (simp add: Let_def test_defs)
  from sk_Encrypt_mask_and_body[where gadd = test_gadd and enc = test_skEncryptor
      and ct = test_ct]
  have 0: "sk_Encrypt test_gadd test_skEncryptor None (RLWE test_ct) = Inl NilPointerDereference"
    by blast
  from 0 h 1 h' 2 show ?thesis by blast
qed

subsection \<open>A nil plaintext\<close>

text \<open>
  Claim C4. The claim is that \<^verbatim>\<open>Encrypt\<close> with a nil plaintext succeeds under both
  kinds of key. In the code every path to an RLWE ciphertext reads the level of the
  plaintext before it tests the plaintext against nil, so the call panics on the nil
  pointer, whatever the encryptor and the ciphertext; \<^verbatim>\<open>EncryptFromCRP\<close> does the same.
\<close>

theorem Encrypt_nil_plaintext_panics:
  "Encrypt gadd (PkEncryptor pe) None (RLWE ct) = Inl NilPointerDereference
   \<and> Encrypt gadd (SkEncryptor se) None (RLWE ct) = Inl NilPointerDereference
   \<and> EncryptFromCRP (SkEncryptor se) None crp ct = Inl NilPointerDereference"
  by (simp add: Encrypt_def EncryptFromCRP_def pk_Encrypt_def sk_Encrypt_def
      sk_EncryptFromCRP_def sk_encryptRLWE_def Plaintext_Level_def)

subsection \<open>Levels and ring degrees\<close>

text \<open>
  Claim C5 as the spec states it: \<^verbatim>\<open>Encrypt\<close> fails when the level of the ciphertext
  exceeds that of the plaintext. On the test values the ciphertext is at level 1 and
  the plaintext at level 0, and \<^verbatim>\<open>Encrypt\<close> returns without a panic under both kinds
  of key.
\<close>

theorem Encrypt_level_mismatch_returns:
  "Poly_Level (pt_Value test_pt) < Ciphertext_Level test_ct
   \<and> \<not> isl (Encrypt test_gadd (SkEncryptor test_skEncryptor) (Some test_pt) (RLWE test_ct))
   \<and> \<not> isl (Encrypt test_gadd (PkEncryptor (test_pkEncryptor 1)) (Some test_pt) (RLWE test_ct))"
proof -
  from test_Encrypt_returns(2)
  have 1: "\<not> isl (Encrypt test_gadd (SkEncryptor test_skEncryptor) (Some test_pt) (RLWE test_ct))"
    by auto
  from test_Encrypt_returns(1)
  have 2: "\<not> isl (Encrypt test_gadd (PkEncryptor (test_pkEncryptor 1)) (Some test_pt)
                    (RLWE test_ct))"
    by auto
  from 1 2 test_levels show ?thesis by simp
qed

text \<open>
  Claim C5, amended. \<^verbatim>\<open>Encrypt\<close> compares no level and no ring degree with anything:
  a call that returns has left the ciphertext at the smaller of the level of the
  plaintext and the level of the ciphertext, whichever of the two is the larger, and
  a call that panics never does so with a ring-degree mismatch. The ring degree of a
  key is checked when the encryptor is built: \<^verbatim>\<open>setKey\<close> (which \<^verbatim>\<open>NewEncryptor\<close> runs
  on a new encryptor for the parameters) returns an encryptor exactly when the ring
  degree of the key is that of the parameters, and panics with the mismatch otherwise.
\<close>

theorem Encrypt_runs_at_min_level_and_setKey_checks_degree:
  "(Encrypt gadd enc pt (RLWE ct) = Inr (enc', c') \<longrightarrow>
      (\<exists>p ct'. pt = Some p \<and> c' = RLWE ct'
         \<and> Ciphertext_Level ct' = min (Poly_Level (pt_Value p)) (Ciphertext_Level ct)))
   \<and> Encrypt gadd enc pt c \<noteq> Inl SetKeyPkRingDegreeMismatch
   \<and> Encrypt gadd enc pt c \<noteq> Inl SetKeySkRingDegreeMismatch
   \<and> (setKey e (PK k) =
        (if Degree (Q (pk_Value0 k)) = N (params e) \<and> Degree (Q (pk_Value1 k)) = N (params e)
         then Inr (PkEncryptor (encryptor.extend e (pkEncryptor.fields k)))
         else Inl SetKeyPkRingDegreeMismatch))
   \<and> (setKey e (SK s) =
        (if Degree (Q (sk_Value s)) = N (params e)
         then Inr (SkEncryptor (encryptor.extend e (skEncryptor.fields s)))
         else Inl SetKeySkRingDegreeMismatch))
   \<and> NewEncryptor ps qp key = setKey (newEncryptor ps qp) key
   \<and> params (newEncryptor ps qp) = ps"
proof (intro conjI impI)
  assume h: "Encrypt gadd enc pt (RLWE ct) = Inr (enc', c')"
  from Encrypt_Inr[OF h]
  show "\<exists>p ct'. pt = Some p \<and> c' = RLWE ct'
         \<and> Ciphertext_Level ct' = min (Poly_Level (pt_Value p)) (Ciphertext_Level ct)"
    by (auto simp: Ciphertext_Level_def)
next
  show "Encrypt gadd enc pt c \<noteq> Inl SetKeyPkRingDegreeMismatch"
    using Encrypt_Inl[of gadd enc pt c SetKeyPkRingDegreeMismatch] by auto
  show "Encrypt gadd enc pt c \<noteq> Inl SetKeySkRingDegreeMismatch"
    using Encrypt_Inl[of gadd enc pt c SetKeySkRingDegreeMismatch] by auto
qed (simp_all add: setKey_def NewEncryptor_def newEncryptor_def)

theorem Encrypt_runs_at_min_level_witness:
  "(\<exists>enc' ct'. Encrypt test_gadd (SkEncryptor test_skEncryptor) (Some test_pt) (RLWE test_ct)
          = Inr (enc', RLWE ct')
        \<and> Ciphertext_Level test_ct = 1 \<and> Poly_Level (pt_Value test_pt) = 0
        \<and> Ciphertext_Level ct' = 0)
   \<and> NewEncryptor (test_params 1) (test_qp 11 2) (SK test_sk) = Inr (SkEncryptor test_skEncryptor)
   \<and> NewEncryptor (test_params 1) (test_qp 11 2) (PK test_pk)
        = Inr (PkEncryptor (test_pkEncryptor 1))
   \<and> NewEncryptor (test_params 1) (test_qp 11 2) (SK test_sk_small)
        = Inl SetKeySkRingDegreeMismatch"
proof -
  note t = Encrypt_runs_at_min_level_and_setKey_checks_degree
  from test_Encrypt_returns(2) obtain e c where
    h: "Encrypt test_gadd (SkEncryptor test_skEncryptor) (Some test_pt) (RLWE test_ct)
          = Inr (e, RLWE c)" by blast
  from t[where gadd = test_gadd and enc = "SkEncryptor test_skEncryptor" and pt = "Some test_pt"
      and ct = test_ct and enc' = e and c' = "RLWE c"] h test_levels
  have "Ciphertext_Level c = 0" by auto
  with h test_levels
  have "\<exists>enc' ct'. Encrypt test_gadd (SkEncryptor test_skEncryptor) (Some test_pt) (RLWE test_ct)
          = Inr (enc', RLWE ct')
        \<and> Ciphertext_Level test_ct = 1 \<and> Poly_Level (pt_Value test_pt) = 0
        \<and> Ciphertext_Level ct' = 0" by blast
  moreover from t[where e = "newEncryptor (test_params 1) (test_qp 11 2)" and s = test_sk
      and ps = "test_params 1" and qp = "test_qp 11 2" and key = "SK test_sk"]
  have "NewEncryptor (test_params 1) (test_qp 11 2) (SK test_sk) = Inr (SkEncryptor test_skEncryptor)"
    by (simp add: test_defs)
  moreover from t[where e = "newEncryptor (test_params 1) (test_qp 11 2)" and k = test_pk
      and ps = "test_params 1" and qp = "test_qp 11 2" and key = "PK test_pk"]
  have "NewEncryptor (test_params 1) (test_qp 11 2) (PK test_pk) = Inr (PkEncryptor (test_pkEncryptor 1))"
    by (simp add: test_defs)
  moreover from t[where e = "newEncryptor (test_params 1) (test_qp 11 2)" and s = test_sk_small
      and ps = "test_params 1" and qp = "test_qp 11 2" and key = "SK test_sk_small"]
  have "NewEncryptor (test_params 1) (test_qp 11 2) (SK test_sk_small) = Inl SetKeySkRingDegreeMismatch"
    by (simp add: test_defs test_sk_small_def)
  ultimately show ?thesis by blast
qed

subsection \<open>The domain of the result\<close>

lemma pk_zero_QP_in_domain:
  assumes "in_domain env True (Coeffs (Q pkv))" and "in_domain env True (PCoeffs pkv)"
  shows "in_domain env False (pk_zero_QP L ku ke pkv)"
  using assms by (simp add: pk_zero_QP_def)

text \<open>
  Claim C6. After a returning \<^verbatim>\<open>Encrypt\<close> on an RLWE ciphertext, under either kind of
  key, both components carry the flag that \<^verbatim>\<open>Value[0]\<close> carried on input. The residues
  are the ones below, for each path and for each of the four combinations of the
  domain of the ciphertext and the domain of the plaintext: the encryption of zero and
  the plaintext each pass through the forward transform when the ciphertext is in the
  NTT domain and they are not, and through the inverse transform in the opposite case.
  So, when the keys are in the NTT domain and the residues of the plaintext are in the
  domain its own flag names, whichever that is, the residues of both components are in
  the domain the flag of the ciphertext names.
\<close>

theorem Encrypt_keeps_ciphertext_domain:
  assumes "Encrypt gadd enc pt (RLWE ct) = Inr (enc', c')"
  shows "\<exists>p ct'. pt = Some p \<and> c' = RLWE ct'
     \<and> IsNTT (ct_Value0 ct') = IsNTT (ct_Value0 ct)
     \<and> IsNTT (ct_Value1 ct') = IsNTT (ct_Value0 ct)
     \<and> (let L = min (Poly_Level (pt_Value p)) (Ciphertext_Level ct);
             m = Coeffs (pt_Value p)
         in case enc of
              SkEncryptor e \<Rightarrow>
                (let a = UniformSamplerQReadLvl (prng e) L;
                     as = NegLvl L (MulCoeffsMontgomeryLvl L a (Coeffs (Q (sk_Value (sk e)))));
                     g = GaussianSamplerReadLvl (prng e + 1) L
                 in Coeffs (ct_Value1 ct') = (if IsNTT (ct_Value0 ct) then a else InvNTTLvl L a)
                  \<and> Coeffs (ct_Value0 ct') =
                      (if IsNTT (ct_Value0 ct)
                       then (if IsNTT (pt_Value p) then AddLvl L (AddLvl L as (NTTLvl L g)) m
                             else AddLvl L as (NTTLvl L (AddLvl L g m)))
                       else GaussianSamplerReadAndAddLvl (prng e + 1) (Ciphertext_Level ct)
                              (if IsNTT (pt_Value p) then InvNTTLvl L (AddLvl L as m)
                               else AddLvl L (InvNTTLvl L as) m)))
            | PkEncryptor e \<Rightarrow>
                (if basisextender e
                 then (let z0 = pk_zero_QP L (prng e + 1) (prng e + 2) (pk_Value0 (pk e));
                           z1 = pk_zero_QP L (prng e + 1) (prng e + 3) (pk_Value1 (pk e))
                       in Coeffs (ct_Value1 ct') =
                            (if IsNTT (ct_Value0 ct) then NTTLvl L z1 else z1)
                        \<and> Coeffs (ct_Value0 ct') =
                            (if IsNTT (ct_Value0 ct)
                             then (if IsNTT (pt_Value p) then AddLvl L (NTTLvl L z0) m
                                   else NTTLvl L (AddLvl L z0 m))
                             else (if IsNTT (pt_Value p) then AddLvl L z0 (InvNTTLvl L m)
                                   else AddLvl L z0 m)))
                 else (let u = MFormLvl L (NTTLvl L (TernarySamplerReadLvl (prng e + 1) L));
                           a0 = MulCoeffsMontgomeryLvl L u (Coeffs (Q (pk_Value0 (pk e))));
                           a1 = MulCoeffsMontgomeryLvl L u (Coeffs (Q (pk_Value1 (pk e))))
                       in Coeffs (ct_Value1 ct') =
                            (if IsNTT (ct_Value0 ct)
                             then AddLvl L a1 (NTTLvl L (GaussianSamplerReadLvl (prng e + 2) L))
                             else GaussianSamplerReadAndAddLvl (prng e + 3) (Ciphertext_Level ct)
                                    (InvNTTLvl L a1))
                        \<and> Coeffs (ct_Value0 ct') =
                            (if IsNTT (ct_Value0 ct)
                             then (if IsNTT (pt_Value p)
                                   then AddLvl L
                                          (AddLvl L a0
                                             (NTTLvl L (GaussianSamplerReadLvl (prng e + 3) L))) m
                                   else AddLvl L a0
                                          (NTTLvl L
                                             (AddLvl L (GaussianSamplerReadLvl (prng e + 3) L) m)))
                             else AddLvl L
                                    (GaussianSamplerReadAndAddLvl (prng e + 2)
                                       (Ciphertext_Level ct) (InvNTTLvl L a0))
                                    (if IsNTT (pt_Value p) then InvNTTLvl L m else m)))))
     \<and> (keys_in_NTT env enc \<and> in_domain env (IsNTT (pt_Value p)) (Coeffs (pt_Value p))
          \<longrightarrow> in_domain env (IsNTT (ct_Value0 ct)) (Coeffs (ct_Value0 ct'))
              \<and> in_domain env (IsNTT (ct_Value0 ct)) (Coeffs (ct_Value1 ct')))"
proof -
  from Encrypt_Inr[OF assms] obtain p ct' where p: "pt = Some p" and c': "c' = RLWE ct'"
    and flags: "IsNTT (ct_Value0 ct') = IsNTT (ct_Value0 ct)"
      "IsNTT (ct_Value1 ct') = IsNTT (ct_Value0 ct)" by blast
  show ?thesis
  proof (cases enc)
    case (PkEncryptor e)
    with assms p c' obtain e' where "pk_Encrypt e (Some p) (RLWE ct) = Inr (e', RLWE ct')"
      by (auto simp: Encrypt_def split: sum.splits)
    from pk_Encrypt_residues[OF this] p c' flags PkEncryptor show ?thesis
      by (cases "basisextender e"; cases "IsNTT (ct_Value0 ct)"; cases "IsNTT (pt_Value p)")
        (simp_all add: Let_def keys_in_NTT_def pk_zero_QP_in_domain)
  next
    case (SkEncryptor e)
    with assms p c' obtain e' where "sk_Encrypt gadd e (Some p) (RLWE ct) = Inr (e', RLWE ct')"
      by (auto simp: Encrypt_def split: sum.splits)
    from sk_Encrypt_residues[OF this] p c' flags SkEncryptor show ?thesis
      by (cases "IsNTT (ct_Value0 ct)"; cases "IsNTT (pt_Value p)")
        (simp_all add: Let_def keys_in_NTT_def)
  qed
qed

theorem Encrypt_keeps_ciphertext_domain_witness:
  "(\<exists>enc' ct'. Encrypt test_gadd (PkEncryptor (test_pkEncryptor 1)) (Some test_pt) (RLWE test_ct)
        = Inr (enc', RLWE ct')
      \<and> IsNTT (ct_Value0 test_ct) \<and> \<not> IsNTT (pt_Value test_pt)
      \<and> IsNTT (ct_Value0 ct') \<and> IsNTT (ct_Value1 ct')
      \<and> Coeffs (ct_Value1 ct') = NTTLvl 0 (pk_zero_QP 0 1 3 (pk_Value1 test_pk))
      \<and> Coeffs (ct_Value0 ct') =
          NTTLvl 0 (AddLvl 0 (pk_zero_QP 0 1 2 (pk_Value0 test_pk)) (Given 7))
      \<and> keys_in_NTT test_env (PkEncryptor (test_pkEncryptor 1))
      \<and> in_domain test_env False (Coeffs (pt_Value test_pt))
      \<and> in_domain test_env True (Coeffs (ct_Value0 ct'))
      \<and> in_domain test_env True (Coeffs (ct_Value1 ct')))
   \<and> (\<exists>enc' ct'. Encrypt test_gadd (SkEncryptor test_skEncryptor) (Some test_pt_NTT)
          (RLWE test_ct_coeff) = Inr (enc', RLWE ct')
      \<and> \<not> IsNTT (ct_Value0 test_ct_coeff) \<and> IsNTT (pt_Value test_pt_NTT)
      \<and> \<not> IsNTT (ct_Value0 ct') \<and> \<not> IsNTT (ct_Value1 ct')
      \<and> Coeffs (ct_Value1 ct') = InvNTTLvl 1 (UniformSamplerQReadLvl 0 1)
      \<and> Coeffs (ct_Value0 ct') =
          GaussianSamplerReadAndAddLvl 1 1
            (InvNTTLvl 1
               (AddLvl 1
                  (NegLvl 1 (MulCoeffsMontgomeryLvl 1 (UniformSamplerQReadLvl 0 1) (Given 1)))
                  (Given 12)))
      \<and> keys_in_NTT test_env (SkEncryptor test_skEncryptor)
      \<and> in_domain test_env True (Coeffs (pt_Value test_pt_NTT))
      \<and> in_domain test_env False (Coeffs (ct_Value0 ct'))
      \<and> in_domain test_env False (Coeffs (ct_Value1 ct')))"
proof -
  from test_Encrypt_returns(1) obtain e c where
    h: "Encrypt test_gadd (PkEncryptor (test_pkEncryptor 1)) (Some test_pt) (RLWE test_ct)
          = Inr (e, RLWE c)" by blast
  have k: "keys_in_NTT test_env (PkEncryptor (test_pkEncryptor 1))"
    by (simp add: keys_in_NTT_def PCoeffs_def test_defs)
  have m: "in_domain test_env False (Coeffs (pt_Value test_pt))"
    by (simp add: test_defs)
  from Encrypt_keeps_ciphertext_domain[OF h, of test_env] test_levels k m
  have 1: "IsNTT (ct_Value0 c) \<and> IsNTT (ct_Value1 c)
      \<and> Coeffs (ct_Value1 c) = NTTLvl 0 (pk_zero_QP 0 1 3 (pk_Value1 test_pk))
      \<and> Coeffs (ct_Value0 c) =
          NTTLvl 0 (AddLvl 0 (pk_zero_QP 0 1 2 (pk_Value0 test_pk)) (Given 7))
      \<and> in_domain test_env True (Coeffs (ct_Value0 c))
      \<and> in_domain test_env True (Coeffs (ct_Value1 c))"
    by (simp add: Let_def test_defs pk_zero_QP_def PCoeffs_def numeral_2_eq_2 numeral_3_eq_3)
  from test_Encrypt_returns(3) obtain e' c' where
    h': "Encrypt test_gadd (SkEncryptor test_skEncryptor) (Some test_pt_NTT) (RLWE test_ct_coeff)
          = Inr (e', RLWE c')" by blast
  have k': "keys_in_NTT test_env (SkEncryptor test_skEncryptor)"
    by (simp add: keys_in_NTT_def test_defs)
  have m': "in_domain test_env True (Coeffs (pt_Value test_pt_NTT))"
    by (simp add: test_defs)
  from Encrypt_keeps_ciphertext_domain[OF h', of test_env] test_levels k' m'
  have 2: "\<not> IsNTT (ct_Value0 c') \<and> \<not> IsNTT (ct_Value1 c')
      \<and> Coeffs (ct_Value1 c') = InvNTTLvl 1 (UniformSamplerQReadLvl 0 1)
      \<and> Coeffs (ct_Value0 c') =
          GaussianSamplerReadAndAddLvl 1 1
            (InvNTTLvl 1
               (AddLvl 1
                  (NegLvl 1 (MulCoeffsMontgomeryLvl 1 (UniformSamplerQReadLvl 0 1) (Given 1)))
                  (Given 12)))
      \<and> in_domain test_env False (Coeffs (ct_Value0 c'))
      \<and> in_domain test_env False (Coeffs (ct_Value1 c'))"
    by (simp add: Let_def test_defs)
  from h 1 k m h' 2 k' m' test_levels show ?thesis by blast
qed

text \<open>
  Claim C7. On return from \<^verbatim>\<open>Encrypt\<close> (either kind of key, either public-key path),
  from \<^verbatim>\<open>EncryptFromCRP\<close> and from the public-key path without auxiliary modulus, the
  two components of the ciphertext carry the same \<^verbatim>\<open>IsNTT\<close> flag.
\<close>

theorem IsNTT_flags_agree_on_return:
  "(Encrypt gadd enc pt (RLWE ct) = Inr (enc1, RLWE ct1)
      \<longrightarrow> IsNTT (ct_Value1 ct1) = IsNTT (ct_Value0 ct1))
   \<and> (EncryptFromCRP enc pt crp ct = Inr (enc2, ct2)
      \<longrightarrow> IsNTT (ct_Value1 ct2) = IsNTT (ct_Value0 ct2))
   \<and> (pk_encryptNoPRLWE pe pt ct = Inr (pe3, ct3)
      \<longrightarrow> IsNTT (ct_Value1 ct3) = IsNTT (ct_Value0 ct3))"
proof (intro conjI impI)
  assume "Encrypt gadd enc pt (RLWE ct) = Inr (enc1, RLWE ct1)"
  from Encrypt_Inr[OF this] show "IsNTT (ct_Value1 ct1) = IsNTT (ct_Value0 ct1)" by auto
next
  assume "EncryptFromCRP enc pt crp ct = Inr (enc2, ct2)"
  from EncryptFromCRP_Inr[OF this] show "IsNTT (ct_Value1 ct2) = IsNTT (ct_Value0 ct2)" by auto
next
  assume "pk_encryptNoPRLWE pe pt ct = Inr (pe3, ct3)"
  from pk_encryptNoPRLWE_shape[OF this] obtain p :: Plaintext and x y where
    "set_flag_and_level
       \<lparr>ct_Value0 = put x (ct_Value0 ct), ct_Value1 = put y (ct_Value1 ct)\<rparr>
       (min (Poly_Level (pt_Value p)) (Ciphertext_Level ct)) = Inr ct3" by auto
  from set_flag_and_level_written[OF this]
  show "IsNTT (ct_Value1 ct3) = IsNTT (ct_Value0 ct3)" by simp
qed

theorem IsNTT_flags_agree_witness:
  "(\<exists>enc1 ct1. Encrypt test_gadd (PkEncryptor (test_pkEncryptor 1)) (Some test_pt) (RLWE test_ct)
        = Inr (enc1, RLWE ct1) \<and> IsNTT (ct_Value1 ct1) = IsNTT (ct_Value0 ct1))
   \<and> (\<exists>enc2 ct2. EncryptFromCRP (SkEncryptor test_skEncryptor) (Some test_pt) test_crp test_ct
        = Inr (enc2, ct2) \<and> IsNTT (ct_Value1 ct2) = IsNTT (ct_Value0 ct2))
   \<and> (\<exists>pe3 ct3. pk_encryptNoPRLWE (test_pkEncryptor 0) (Some test_pt) test_ct = Inr (pe3, ct3)
        \<and> IsNTT (ct_Value1 ct3) = IsNTT (ct_Value0 ct3))"
proof (intro conjI)
  from test_Encrypt_returns(1) obtain e c where
    h: "Encrypt test_gadd (PkEncryptor (test_pkEncryptor 1)) (Some test_pt) (RLWE test_ct)
          = Inr (e, RLWE c)" by blast
  with IsNTT_flags_agree_on_return[of test_gadd "PkEncryptor (test_pkEncryptor 1)" "Some test_pt"
      test_ct e c]
  show "\<exists>enc1 ct1. Encrypt test_gadd (PkEncryptor (test_pkEncryptor 1)) (Some test_pt)
          (RLWE test_ct) = Inr (enc1, RLWE ct1) \<and> IsNTT (ct_Value1 ct1) = IsNTT (ct_Value0 ct1)"
    by blast
next
  from test_Encrypt_returns(4) obtain e c where
    h: "EncryptFromCRP (SkEncryptor test_skEncryptor) (Some test_pt) test_crp test_ct
          = Inr (e, c)" by blast
  with IsNTT_flags_agree_on_return[of _ "SkEncryptor test_skEncryptor" "Some test_pt" _ _ _
      test_crp e c]
  show "\<exists>enc2 ct2. EncryptFromCRP (SkEncryptor test_skEncryptor) (Some test_pt) test_crp test_ct
          = Inr (enc2, ct2) \<and> IsNTT (ct_Value1 ct2) = IsNTT (ct_Value0 ct2)"
    by blast
next
  from test_pk_encryptNoPRLWE_returns obtain e c where
    h: "pk_encryptNoPRLWE (test_pkEncryptor 0) (Some test_pt) test_ct = Inr (e, c)" by blast
  with IsNTT_flags_agree_on_return[of _ _ "Some test_pt" test_ct _ _ _ _ _  "test_pkEncryptor 0" e c]
  show "\<exists>pe3 ct3. pk_encryptNoPRLWE (test_pkEncryptor 0) (Some test_pt) test_ct = Inr (pe3, ct3)
          \<and> IsNTT (ct_Value1 ct3) = IsNTT (ct_Value0 ct3)"
    by blast
qed

text \<open>
  Claim C8. After a returning \<^verbatim>\<open>Encrypt\<close> both components of the ciphertext are at the
  smaller of the level of the plaintext and the level the ciphertext had on input; the
  level of the ciphertext has not increased.
\<close>

theorem Encrypt_level_is_min:
  assumes "Encrypt gadd enc pt (RLWE ct) = Inr (enc', c')"
  shows "\<exists>p ct'. pt = Some p \<and> c' = RLWE ct'
     \<and> Poly_Level (ct_Value0 ct') = min (Poly_Level (pt_Value p)) (Ciphertext_Level ct)
     \<and> Poly_Level (ct_Value1 ct') = min (Poly_Level (pt_Value p)) (Ciphertext_Level ct)
     \<and> Ciphertext_Level ct' \<le> Ciphertext_Level ct"
  using Encrypt_Inr[OF assms] by (auto simp: Ciphertext_Level_def)

theorem Encrypt_level_is_min_witness:
  "\<exists>enc' ct'. Encrypt test_gadd (SkEncryptor test_skEncryptor) (Some test_pt) (RLWE test_ct)
        = Inr (enc', RLWE ct')
     \<and> Ciphertext_Level test_ct = 1 \<and> Poly_Level (pt_Value test_pt) = 0
     \<and> Poly_Level (ct_Value0 ct') = 0 \<and> Poly_Level (ct_Value1 ct') = 0"
proof -
  from test_Encrypt_returns(2) obtain e c where
    h: "Encrypt test_gadd (SkEncryptor test_skEncryptor) (Some test_pt) (RLWE test_ct)
          = Inr (e, RLWE c)" by blast
  from Encrypt_level_is_min[OF h] have
    "Poly_Level (ct_Value0 c) = min (Poly_Level (pt_Value test_pt)) (Ciphertext_Level test_ct)"
    "Poly_Level (ct_Value1 c) = min (Poly_Level (pt_Value test_pt)) (Ciphertext_Level test_ct)"
    by auto
  moreover have "Ciphertext_Level test_ct = 1" "Poly_Level (pt_Value test_pt) = 0"
    by (simp_all add: Ciphertext_Level_def Poly_Level_def test_defs)
  ultimately show ?thesis using h by auto
qed

subsection \<open>What each kind of key supports\<close>

text \<open>
  Claim C9. Under a public key \<^verbatim>\<open>EncryptFromCRP\<close> panics on every input and
  \<^verbatim>\<open>Encrypt\<close> with an RGSW target panics with the unsupported-type message. Under a
  secret key neither is refused: \<^verbatim>\<open>EncryptFromCRP\<close> never panics with the message of
  the public-key variant, and when it returns it was given a plaintext, the mask is the
  common reference polynomial brought to the ciphertext's domain and the body is minus
  the product of that polynomial with the secret key, plus a Gaussian sample, plus the
  plaintext; \<^verbatim>\<open>Encrypt\<close> with an RGSW target never panics with the unsupported-type
  message, and when it returns it has left an RGSW ciphertext at the levels of the
  target.
\<close>

theorem public_key_unsupported_secret_key_supported:
  "EncryptFromCRP (PkEncryptor pe) pt crp ct = Inl CannotEncryptWithCRPUsingAPublicKey
   \<and> Encrypt gadd (PkEncryptor pe) pt (RGSW g) = Inl InputCiphertextTypeUnsupported
   \<and> EncryptFromCRP (SkEncryptor se) pt crp ct \<noteq> Inl CannotEncryptWithCRPUsingAPublicKey
   \<and> (EncryptFromCRP (SkEncryptor se) pt crp ct = Inr (enc_crp, ct_crp) \<longrightarrow>
        (\<exists>p se_crp. pt = Some p \<and> enc_crp = SkEncryptor se_crp \<and>
           (let L = min (Poly_Level (pt_Value p)) (Ciphertext_Level ct);
                a = Coeffs crp;
                s = Coeffs (Q (sk_Value (sk se)));
                e = GaussianSamplerReadLvl (prng se) L;
                m = Coeffs (pt_Value p);
                as = NegLvl L (MulCoeffsMontgomeryLvl L a s)
            in Coeffs (ct_Value1 ct_crp) = (if IsNTT (ct_Value0 ct) then a else InvNTTLvl L a)
             \<and> Coeffs (ct_Value0 ct_crp) =
                 (if IsNTT (ct_Value0 ct)
                  then (if IsNTT (pt_Value p) then AddLvl L (AddLvl L as (NTTLvl L e)) m
                        else AddLvl L as (NTTLvl L (AddLvl L e m)))
                  else GaussianSamplerReadAndAddLvl (prng se) (Ciphertext_Level ct)
                         (if IsNTT (pt_Value p) then InvNTTLvl L (AddLvl L as m)
                          else AddLvl L (InvNTTLvl L as) m)))))
   \<and> Encrypt gadd (SkEncryptor se) pt (RGSW g) \<noteq> Inl InputCiphertextTypeUnsupported
   \<and> (Encrypt gadd (SkEncryptor se) pt (RGSW g) = Inr (enc_rgsw, c_rgsw) \<longrightarrow>
        (\<exists>se_rgsw g_rgsw. enc_rgsw = SkEncryptor se_rgsw \<and> c_rgsw = RGSW g_rgsw
           \<and> rgsw_LevelQ g_rgsw = rgsw_LevelQ g \<and> rgsw_LevelP g_rgsw = rgsw_LevelP g))"
proof (intro conjI impI)
  show "EncryptFromCRP (PkEncryptor pe) pt crp ct = Inl CannotEncryptWithCRPUsingAPublicKey"
    by (simp add: EncryptFromCRP_def pk_EncryptFromCRP_def)
  show "Encrypt gadd (PkEncryptor pe) pt (RGSW g) = Inl InputCiphertextTypeUnsupported"
    by (simp add: Encrypt_def pk_Encrypt_def)
  show "EncryptFromCRP (SkEncryptor se) pt crp ct \<noteq> Inl CannotEncryptWithCRPUsingAPublicKey"
    by (auto simp: EncryptFromCRP_def sk_EncryptFromCRP_def split: sum.splits
        dest: sk_encryptRLWE_Inl)
  show "Encrypt gadd (SkEncryptor se) pt (RGSW g) \<noteq> Inl InputCiphertextTypeUnsupported"
    by (auto simp: Encrypt_def sk_Encrypt_def split: sum.splits dest: encryptRGSW_Inl)
next
  assume "EncryptFromCRP (SkEncryptor se) pt crp ct = Inr (enc_crp, ct_crp)"
  then obtain se_crp where e: "enc_crp = SkEncryptor se_crp"
    and h: "sk_EncryptFromCRP se pt crp ct = Inr (se_crp, ct_crp)"
    by (auto simp: EncryptFromCRP_def split: sum.splits)
  from sk_EncryptFromCRP_Inr[OF h] obtain p where p: "pt = Some p" by blast
  from sk_encryptRLWE_values[OF h[unfolded sk_EncryptFromCRP_def p]] e p
  show "\<exists>p se_crp. pt = Some p \<and> enc_crp = SkEncryptor se_crp \<and>
           (let L = min (Poly_Level (pt_Value p)) (Ciphertext_Level ct);
                a = Coeffs crp;
                s = Coeffs (Q (sk_Value (sk se)));
                e = GaussianSamplerReadLvl (prng se) L;
                m = Coeffs (pt_Value p);
                as = NegLvl L (MulCoeffsMontgomeryLvl L a s)
            in Coeffs (ct_Value1 ct_crp) = (if IsNTT (ct_Value0 ct) then a else InvNTTLvl L a)
             \<and> Coeffs (ct_Value0 ct_crp) =
                 (if IsNTT (ct_Value0 ct)
                  then (if IsNTT (pt_Value p) then AddLvl L (AddLvl L as (NTTLvl L e)) m
                        else AddLvl L as (NTTLvl L (AddLvl L e m)))
                  else GaussianSamplerReadAndAddLvl (prng se) (Ciphertext_Level ct)
                         (if IsNTT (pt_Value p) then InvNTTLvl L (AddLvl L as m)
                          else AddLvl L (InvNTTLvl L as) m)))"
    by (simp add: Let_def put_def Ciphertext_Level_def)
next
  assume "Encrypt gadd (SkEncryptor se) pt (RGSW g) = Inr (enc_rgsw, c_rgsw)"
  then obtain se_rgsw g_rgsw where e: "enc_rgsw = SkEncryptor se_rgsw" "c_rgsw = RGSW g_rgsw"
    and h: "encryptRGSW gadd se pt g = Inr (se_rgsw, g_rgsw)"
    by (auto simp: Encrypt_def sk_Encrypt_def split: sum.splits)
  from encryptRGSW_Inr[OF h] e
  show "\<exists>se_rgsw g_rgsw. enc_rgsw = SkEncryptor se_rgsw \<and> c_rgsw = RGSW g_rgsw
           \<and> rgsw_LevelQ g_rgsw = rgsw_LevelQ g \<and> rgsw_LevelP g_rgsw = rgsw_LevelP g"
    by blast
qed

theorem public_key_unsupported_secret_key_supported_witness:
  "(\<exists>enc' ct'. EncryptFromCRP (SkEncryptor test_skEncryptor) (Some test_pt) test_crp test_ct
          = Inr (enc', ct')
        \<and> Coeffs (ct_Value1 ct') = Given 10
        \<and> Coeffs (ct_Value0 ct') =
            AddLvl 0 (NegLvl 0 (MulCoeffsMontgomeryLvl 0 (Given 10) (Given 1)))
              (NTTLvl 0 (AddLvl 0 (GaussianSamplerReadLvl 0 0) (Given 7))))
   \<and> (\<exists>enc' g'. Encrypt test_gadd (SkEncryptor test_skEncryptor) None (RGSW test_rgsw)
          = Inr (enc', RGSW g') \<and> rgsw_LevelQ g' = 1 \<and> rgsw_LevelP g' = 0)
   \<and> (\<exists>enc' g'. Encrypt test_gadd (SkEncryptor test_skEncryptor) (Some test_pt_NTT)
          (RGSW test_rgsw) = Inr (enc', RGSW g') \<and> rgsw_LevelQ g' = 1 \<and> rgsw_LevelP g' = 0)"
proof -
  note t = public_key_unsupported_secret_key_supported
  from test_Encrypt_returns(4) obtain e c where
    h: "EncryptFromCRP (SkEncryptor test_skEncryptor) (Some test_pt) test_crp test_ct
          = Inr (e, c)" by blast
  from t[where se = test_skEncryptor and pt = "Some test_pt" and crp = test_crp
      and ct = test_ct and enc_crp = e and ct_crp = c] h test_levels
  have "Coeffs (ct_Value1 c) = Given 10
        \<and> Coeffs (ct_Value0 c) =
            AddLvl 0 (NegLvl 0 (MulCoeffsMontgomeryLvl 0 (Given 10) (Given 1)))
              (NTTLvl 0 (AddLvl 0 (GaussianSamplerReadLvl 0 0) (Given 7)))"
    by (auto simp: Let_def test_defs)
  with h have 1: "\<exists>enc' ct'. EncryptFromCRP (SkEncryptor test_skEncryptor) (Some test_pt)
      test_crp test_ct = Inr (enc', ct')
        \<and> Coeffs (ct_Value1 ct') = Given 10
        \<and> Coeffs (ct_Value0 ct') =
            AddLvl 0 (NegLvl 0 (MulCoeffsMontgomeryLvl 0 (Given 10) (Given 1)))
              (NTTLvl 0 (AddLvl 0 (GaussianSamplerReadLvl 0 0) (Given 7)))" by blast
  have l: "rgsw_LevelQ test_rgsw = 1" "rgsw_LevelP test_rgsw = 0"
    by (simp_all add: test_rgsw_def)
  from test_encryptRGSW_returns(1) obtain e_nil c_nil where
    h_nil: "Encrypt test_gadd (SkEncryptor test_skEncryptor) None (RGSW test_rgsw)
              = Inr (e_nil, c_nil)"
    by (auto simp: Encrypt_def sk_Encrypt_def)
  from t[where se = test_skEncryptor and pt = None and gadd = test_gadd and g = test_rgsw
      and enc_rgsw = e_nil and c_rgsw = c_nil] h_nil l
  have 2: "\<exists>enc' g'. Encrypt test_gadd (SkEncryptor test_skEncryptor) None (RGSW test_rgsw)
          = Inr (enc', RGSW g') \<and> rgsw_LevelQ g' = 1 \<and> rgsw_LevelP g' = 0" by auto
  from test_encryptRGSW_returns(2) obtain e_pt c_pt where
    h_pt: "Encrypt test_gadd (SkEncryptor test_skEncryptor) (Some test_pt_NTT) (RGSW test_rgsw)
          = Inr (e_pt, c_pt)"
    by (auto simp: Encrypt_def sk_Encrypt_def)
  from t[where se = test_skEncryptor and pt = "Some test_pt_NTT" and gadd = test_gadd
      and g = test_rgsw and enc_rgsw = e_pt and c_rgsw = c_pt] h_pt l
  have 3: "\<exists>enc' g'. Encrypt test_gadd (SkEncryptor test_skEncryptor) (Some test_pt_NTT)
          (RGSW test_rgsw) = Inr (enc', RGSW g') \<and> rgsw_LevelQ g' = 1 \<and> rgsw_LevelP g' = 0"
    by auto
  from 1 2 3 show ?thesis by blast
qed

section \<open>Properties of the LWE extraction\<close>

lemma negacyclic_coeff_by_index:
  assumes "i < length a"
  shows "negacyclic_coeff a s i =
     (\<Sum>l<length a. if l \<le> i then a ! (i - l) * s ! l else - (a ! (length a + i - l) * s ! l))"
proof -
  let ?n = "length a"
  let ?f = "\<lambda>j l. if j + l = i then a ! j * s ! l
                        else if j + l = i + ?n then - (a ! j * s ! l) else 0"
  have "negacyclic_coeff a s i = (\<Sum>l<?n. \<Sum>j<?n. ?f j l)"
    unfolding negacyclic_coeff_def Let_def by (rule sum.swap)
  also have "\<dots> = (\<Sum>l<?n. if l \<le> i then a ! (i - l) * s ! l
                          else - (a ! (?n + i - l) * s ! l))"
  proof (rule sum.cong[OF refl])
    fix l assume "l \<in> {..<?n}"
    then have l: "l < ?n" by simp
    show "(\<Sum>j<?n. ?f j l) = (if l \<le> i then a ! (i - l) * s ! l
                          else - (a ! (?n + i - l) * s ! l))"
    proof (cases "l \<le> i")
      case True
      have "(\<Sum>j<?n. ?f j l) = (\<Sum>j<?n. if j = i - l then a ! j * s ! l else 0)"
        using True assms l by (intro sum.cong) auto
      also have "\<dots> = a ! (i - l) * s ! l"
      proof -
        from assms have "i - l < ?n" by simp
        then show ?thesis by (simp add: sum.delta)
      qed
      finally show ?thesis using True by simp
    next
      case False
      have "(\<Sum>j<?n. ?f j l) = (\<Sum>j<?n. if j = ?n + i - l then - (a ! j * s ! l) else 0)"
        using False assms l by (intro sum.cong) auto
      also have "\<dots> = - (a ! (?n + i - l) * s ! l)"
      proof -
        from False l have "?n + i - l < ?n" by arith
        then show ?thesis by (simp add: sum.delta)
      qed
      finally show ?thesis using False by simp
    qed
  qed
  finally show ?thesis .
qed

lemma sum_mod_mult:
  fixes f g :: "nat \<Rightarrow> int"
  shows "(\<Sum>j\<in>A. (f j mod q) * g j) mod q = (\<Sum>j\<in>A. f j * g j) mod q"
proof -
  have "(\<Sum>j\<in>A. (f j mod q) * g j) mod q = (\<Sum>j\<in>A. ((f j mod q) * g j) mod q) mod q"
    by (simp add: mod_sum_eq)
  also have "\<dots> = (\<Sum>j\<in>A. (f j * g j) mod q) mod q"
    by (simp add: mod_mult_left_eq)
  also have "\<dots> = (\<Sum>j\<in>A. f j * g j) mod q"
    by (simp add: mod_sum_eq)
  finally show ?thesis .
qed

lemma recentre_small:
  assumes "39 < q" and "\<bar>e\<bar> \<le> 19"
  shows "recentre q (e mod q) = e"
proof (cases "0 \<le> e")
  case True
  with assms have "e mod q = e" by simp
  with assms True show ?thesis by (simp add: recentre_def)
next
  case False
  with assms have "0 \<le> e + q" "e + q < q" by simp_all
  then have "(e + q) mod q = e + q" by (rule mod_pos_pos_trivial)
  then have "e mod q = e + q" by simp
  with assms False show ?thesis by (simp add: recentre_def)
qed

lemma DecryptLWE_ExtractLWE_sample:
  assumes "i < length (rlwe_mask ct)"
  shows "DecryptLWE q (ExtractLWE_sample q ct i) s = recentre q (DecryptRLWE q ct s ! i)"
proof -
  let ?a = "rlwe_mask ct"
  let ?n = "length ?a"
  let ?x = "\<lambda>j. if j \<le> i then - (?a ! (i - j)) else ?a ! (?n + i - j)"
  have "(\<Sum>j<length (fst (ExtractLWE_sample q ct i)). fst (ExtractLWE_sample q ct i) ! j * s ! j)
        = (\<Sum>j<?n. (?x j mod q) * s ! j)"
    by (intro sum.cong) (auto simp: ExtractLWE_sample_def Let_def)
  then have "(snd (ExtractLWE_sample q ct i)
               - (\<Sum>j<length (fst (ExtractLWE_sample q ct i)).
                    fst (ExtractLWE_sample q ct i) ! j * s ! j)) mod q
             = (rlwe_body ct ! i - (\<Sum>j<?n. (?x j mod q) * s ! j)) mod q"
    by (simp add: ExtractLWE_sample_def Let_def)
  also have "\<dots> = (rlwe_body ct ! i - (\<Sum>j<?n. ?x j * s ! j)) mod q"
  proof -
    have "(rlwe_body ct ! i - (\<Sum>j<?n. (?x j mod q) * s ! j)) mod q
          = (rlwe_body ct ! i - (\<Sum>j<?n. (?x j mod q) * s ! j) mod q) mod q"
      by (rule mod_diff_right_eq[symmetric])
    also have "\<dots> = (rlwe_body ct ! i - (\<Sum>j<?n. ?x j * s ! j) mod q) mod q"
      by (simp only: sum_mod_mult)
    also have "\<dots> = (rlwe_body ct ! i - (\<Sum>j<?n. ?x j * s ! j)) mod q"
      by (rule mod_diff_right_eq)
    finally show ?thesis .
  qed
  also have "(\<Sum>j<?n. ?x j * s ! j) = - negacyclic_coeff ?a s i"
  proof -
    have "(\<Sum>j<?n. ?x j * s ! j)
          = (\<Sum>l<?n. - (if l \<le> i then ?a ! (i - l) * s ! l
                            else - (?a ! (?n + i - l) * s ! l)))"
      by (intro sum.cong) auto
    also have "\<dots> = - (\<Sum>l<?n. if l \<le> i then ?a ! (i - l) * s ! l
                            else - (?a ! (?n + i - l) * s ! l))"
      by (rule sum_negf)
    finally show ?thesis by (simp only: negacyclic_coeff_by_index[OF assms(1)])
  qed
  finally have "DecryptLWE q (ExtractLWE_sample q ct i) s
      = recentre q ((rlwe_body ct ! i + negacyclic_coeff ?a s i) mod q)"
    by (simp add: DecryptLWE_def)
  also have "(rlwe_body ct ! i + negacyclic_coeff ?a s i) mod q = DecryptRLWE q ct s ! i"
    using assms(1) by (simp add: DecryptRLWE_def)
  finally show ?thesis .
qed

text \<open>
  Claim C3. For every coefficient index \<open>i\<close> of the ring, every ciphertext and every
  secret key, the sample extracted at \<open>i\<close> decrypts directly, by \<open>b - a * s\<close>, to
  coefficient \<open>i\<close> of the decryption of the ciphertext, both recentred: the two agree
  exactly, so with the same noise. In particular, for a ciphertext whose body at \<open>i\<close>
  is \<open>- mask * secret + e\<close> with a noise \<open>e\<close> of at most 19 in absolute value (the
  bound the test applies) and \<open>q\<close> above 39, the sample decrypts to \<open>e\<close>.
\<close>

theorem extraction_correct:
  assumes "i < length (rlwe_mask ct)" and "i \<in> set selected"
  shows "\<exists>smp. ExtractLWE q ct selected i = Some smp
           \<and> DecryptLWE q smp s = recentre q (DecryptRLWE q ct s ! i)
           \<and> (39 < q \<and> \<bar>e\<bar> \<le> 19
                \<and> rlwe_body ct ! i = (e - negacyclic_coeff (rlwe_mask ct) s i) mod q
               \<longrightarrow> DecryptLWE q smp s = e)"
proof -
  have ex: "ExtractLWE q ct selected i = Some (ExtractLWE_sample q ct i)"
    using assms by (simp add: ExtractLWE_def)
  note d = DecryptLWE_ExtractLWE_sample[OF assms(1), of q s]
  have "DecryptLWE q (ExtractLWE_sample q ct i) s = e"
    if q: "39 < q" and e: "\<bar>e\<bar> \<le> 19"
      and b: "rlwe_body ct ! i = (e - negacyclic_coeff (rlwe_mask ct) s i) mod q"
  proof -
    have "DecryptRLWE q ct s ! i
          = ((e - negacyclic_coeff (rlwe_mask ct) s i) mod q
              + negacyclic_coeff (rlwe_mask ct) s i) mod q"
      using assms(1) b by (simp add: DecryptRLWE_def)
    also have "\<dots> = e mod q"
      by (simp add: mod_add_left_eq)
    finally show ?thesis using d recentre_small[OF q e] by simp
  qed
  with ex d show ?thesis by simp
qed

theorem extraction_correct_witness:
  "3 < length (rlwe_mask test_rlwe) \<and> 3 \<in> set [0, 1, 2, 3 :: nat]
   \<and> (39 :: int) < 97 \<and> \<bar>- 2 :: int\<bar> \<le> 19
   \<and> ExtractLWE 97 test_rlwe [0, 1, 2, 3] 3 = Some ([86, 90, 92, 94], 86)
   \<and> DecryptLWE 97 ([86, 90, 92, 94], 86) test_secret = - 2
   \<and> DecryptRLWE 97 test_rlwe test_secret ! 3 = 95
   \<and> rlwe_body test_rlwe ! 3
        = (- 2 - negacyclic_coeff (rlwe_mask test_rlwe) test_secret 3) mod 97"
proof -
  have x: "ExtractLWE 97 test_rlwe [0, 1, 2, 3] 3 = Some ([86, 90, 92, 94], 86)"
    by (simp add: ExtractLWE_def ExtractLWE_sample_def test_rlwe_def Let_def eval_nat_numeral
        upt_rec)
  have n: "negacyclic_coeff (rlwe_mask test_rlwe) test_secret 3 = 9"
    by (simp add: negacyclic_coeff_def test_rlwe_def test_secret_def Let_def eval_nat_numeral
        lessThan_Suc)
  have b: "rlwe_body test_rlwe ! 3
        = (- 2 - negacyclic_coeff (rlwe_mask test_rlwe) test_secret 3) mod 97"
    by (simp add: n) (simp add: test_rlwe_def eval_nat_numeral)
  have len: "length (rlwe_mask test_rlwe) = 4"
    by (simp add: test_rlwe_def)
  have r: "DecryptRLWE 97 test_rlwe test_secret ! 3 = 95"
    by (simp add: DecryptRLWE_def len n) (simp add: test_rlwe_def)
  have l: "3 < length (rlwe_mask test_rlwe)" "3 \<in> set [0, 1, 2, 3 :: nat]"
    by (simp_all add: test_rlwe_def)
  from extraction_correct[OF l, of 97 test_secret "- 2"] x b
  have "DecryptLWE 97 ([86, 90, 92, 94], 86) test_secret = - 2" by simp
  with x b r l show ?thesis by simp
qed

end
